theory Spec2Isabelle
  imports Main "HOL-Library.Word"
begin

section \<open>JavaScript values\<close>

text \<open>
  The handler of \<^verbatim>\<open>source/image-handler/index.ts\<close> works on dynamically typed data: the
  caught value is untyped, header values are strings, booleans or \<^verbatim>\<open>undefined\<close>, and the
  error is serialised with \<^verbatim>\<open>JSON.stringify\<close>. Values are therefore modelled by a datatype
  of JavaScript values.

  \<^item> A number is an integer from \<open>- 2 ^ 53\<close> up to \<open>2 ^ 53 - 1\<close>, kept as a 54-bit word that
    is read as signed. These are numbers that \<^verbatim>\<open>Number.prototype.toString\<close> prints with all
    their digits; other numbers are not modelled. As for every word, a numeral is taken
    modulo \<open>2 ^ 54\<close>, so a numeral outside the range does not denote the number it writes.
  \<^item> An object is the list of its own enumerable properties in enumeration order, with one
    entry for each name. Properties that are inherited or not enumerable are not modelled.
  \<^item> \<open>JBigInt\<close> is a BigInt, which \<^verbatim>\<open>JSON.stringify\<close> refuses.
  \<^item> \<open>JCycle\<close> is an object that lies on a reference cycle, so that an object which holds
    it cannot be serialised. Nothing else of it is modelled; as a caught value it stands for
    such an object without the properties \<^verbatim>\<open>code\<close> and \<^verbatim>\<open>status\<close>.

  The older untyped handler (\<^verbatim>\<open>index.js\<close>) is not modelled.
\<close>

datatype jsval =
    JUndefined
  | JNull
  | JBool bool
  | JNum "54 word"
  | JBigInt int
  | JStr string
  | JArr "jsval list"
  | JObj "(string \<times> jsval) list"
  | JCycle

type_synonym jsobj = "(string \<times> jsval) list"

text \<open>
  The \<^verbatim>\<open>TypeError\<close> that the language throws. It has no enumerable property of its own.
\<close>

definition TypeError :: jsval where
  "TypeError = JObj []"

text \<open>Truthiness (the abstract operation ToBoolean) on the modelled values.\<close>

fun truthy :: "jsval \<Rightarrow> bool" where
  "truthy JUndefined = False"
| "truthy JNull = False"
| "truthy (JBool b) = b"
| "truthy (JNum n) = (n \<noteq> 0)"
| "truthy (JBigInt n) = (n \<noteq> 0)"
| "truthy (JStr s) = (s \<noteq> [])"
| "truthy (JArr vs) = True"
| "truthy (JObj ps) = True"
| "truthy JCycle = True"

text \<open>Reading a property \<^verbatim>\<open>o.k\<close> of an object: a missing property reads as \<^verbatim>\<open>undefined\<close>.\<close>

definition property :: "jsobj \<Rightarrow> string \<Rightarrow> jsval" where
  "property obj k = (case map_of obj k of None \<Rightarrow> JUndefined | Some v \<Rightarrow> v)"

text \<open>
  The member access \<^verbatim>\<open>v.k\<close> on any value, for the names \<^verbatim>\<open>code\<close> and \<^verbatim>\<open>status\<close>
  that the handler reads of the caught value. On \<^verbatim>\<open>undefined\<close> and \<^verbatim>\<open>null\<close> the access
  throws a \<^verbatim>\<open>TypeError\<close>. A primitive value or an array has no property of these names, so
  the access gives \<^verbatim>\<open>undefined\<close>.
\<close>

fun read_member :: "jsval \<Rightarrow> string \<Rightarrow> jsval + jsval" where
  "read_member JUndefined k = Inl TypeError"
| "read_member JNull k = Inl TypeError"
| "read_member (JObj ps) k = Inr (property ps k)"
| "read_member v k = Inr JUndefined"

text \<open>\<^verbatim>\<open>Object.prototype.hasOwnProperty.call(o, k)\<close>: presence of the name, whatever the value.\<close>

definition hasOwnProperty :: "(string \<times> 'v) list \<Rightarrow> string \<Rightarrow> bool" where
  "hasOwnProperty obj k = (k \<in> set (map fst obj))"

text \<open>\<^verbatim>\<open>Object.keys(o)\<close>.\<close>

definition Object_keys :: "jsobj \<Rightarrow> string list" where
  "Object_keys obj = map fst obj"

text \<open>
  A substitution \<^verbatim>\<open>${e}\<close> of a template literal, for an expression that is a string or
  \<^verbatim>\<open>undefined\<close>: \<^verbatim>\<open>undefined\<close> is rendered as the text "undefined".
\<close>

definition template :: "string option \<Rightarrow> string" where
  "template e = (case e of None \<Rightarrow> ''undefined'' | Some s \<Rightarrow> s)"

text \<open>A value that is a string or \<^verbatim>\<open>undefined\<close>, stored as a header value.\<close>

definition string_or_undefined :: "string option \<Rightarrow> jsval" where
  "string_or_undefined e = (case e of None \<Rightarrow> JUndefined | Some s \<Rightarrow> JStr s)"

subsection \<open>\<^verbatim>\<open>JSON.stringify\<close>\<close>

definition decimal_digit :: "nat \<Rightarrow> char" where
  "decimal_digit n = ''0123456789'' ! (n mod 10)"

function decimal :: "nat \<Rightarrow> string" where
  "decimal n = (if n < 10 then [decimal_digit n] else decimal (n div 10) @ [decimal_digit n])"
  by pat_completeness auto
termination
  by (relation "measure id") auto

text \<open>\<^verbatim>\<open>Number.prototype.toString\<close> on the modelled numbers: the decimal digits, after a sign.\<close>

definition Number_toString :: "54 word \<Rightarrow> string" where
  "Number_toString n =
     (if sint n < 0 then CHR ''-'' # decimal (nat (- sint n)) else decimal (nat (sint n)))"

definition hex_digit :: "nat \<Rightarrow> char" where
  "hex_digit n = ''0123456789abcdef'' ! (n mod 16)"

text \<open>
  QuoteJSONString: the double quote is \<open>CHR 0x22\<close> and the backslash \<open>CHR 0x5C\<close>; the
  control characters have their two-character escapes or \<^verbatim>\<open>\u00XX\<close>.
\<close>

definition escape_char :: "char \<Rightarrow> string" where
  "escape_char c =
     (if c = CHR 0x22 then [CHR 0x5C, CHR 0x22]
      else if c = CHR 0x5C then [CHR 0x5C, CHR 0x5C]
      else if c = CHR 0x08 then [CHR 0x5C, CHR ''b'']
      else if c = CHR 0x0C then [CHR 0x5C, CHR ''f'']
      else if c = CHR 0x0A then [CHR 0x5C, CHR ''n'']
      else if c = CHR 0x0D then [CHR 0x5C, CHR ''r'']
      else if c = CHR 0x09 then [CHR 0x5C, CHR ''t'']
      else if (of_char c :: nat) < 32
        then [CHR 0x5C, CHR ''u'', CHR ''0'', CHR ''0'',
              hex_digit (of_char c div 16), hex_digit (of_char c)]
      else [c])"

definition QuoteJSONString :: "string \<Rightarrow> string" where
  "QuoteJSONString s = CHR 0x22 # concat (map escape_char s) @ [CHR 0x22]"

fun join :: "string \<Rightarrow> string list \<Rightarrow> string" where
  "join sep [] = []"
| "join sep [x] = x"
| "join sep (x # y # ys) = x @ sep @ join sep (y # ys)"

text \<open>
  SerializeJSONProperty without indentation. \<open>Inl\<close> is a thrown \<^verbatim>\<open>TypeError\<close>: for a
  BigInt, and for an object on a reference cycle. \<open>Inr None\<close> is the result
  \<^verbatim>\<open>undefined\<close>, for which an object omits the property and an array writes
  \<^verbatim>\<open>null\<close>.
\<close>

fun JSON_property :: "jsval \<Rightarrow> jsval + string option"
  and JSON_members :: "(string \<times> jsval) list \<Rightarrow> jsval + string list"
  and JSON_elements :: "jsval list \<Rightarrow> jsval + string list" where
  "JSON_property JUndefined = Inr None"
| "JSON_property JNull = Inr (Some ''null'')"
| "JSON_property (JBool b) = Inr (Some (if b then ''true'' else ''false''))"
| "JSON_property (JNum n) = Inr (Some (Number_toString n))"
| "JSON_property (JBigInt n) = Inl TypeError"
| "JSON_property (JStr s) = Inr (Some (QuoteJSONString s))"
| "JSON_property (JArr vs) =
     (case JSON_elements vs of
        Inl thrown \<Rightarrow> Inl thrown
      | Inr elements \<Rightarrow> Inr (Some (''['' @ join '','' elements @ '']'')))"
| "JSON_property (JObj ps) =
     (case JSON_members ps of
        Inl thrown \<Rightarrow> Inl thrown
      | Inr members \<Rightarrow> Inr (Some (''{'' @ join '','' members @ ''}'')))"
| "JSON_property JCycle = Inl TypeError"
| "JSON_members [] = Inr []"
| "JSON_members ((k, v) # ps) =
     (case JSON_property v of
        Inl thrown \<Rightarrow> Inl thrown
      | Inr None \<Rightarrow> JSON_members ps
      | Inr (Some s) \<Rightarrow>
          (case JSON_members ps of
             Inl thrown \<Rightarrow> Inl thrown
           | Inr members \<Rightarrow> Inr ((QuoteJSONString k @ '':'' @ s) # members)))"
| "JSON_elements [] = Inr []"
| "JSON_elements (v # vs) =
     (case JSON_property v of
        Inl thrown \<Rightarrow> Inl thrown
      | Inr element \<Rightarrow>
          (case JSON_elements vs of
             Inl thrown \<Rightarrow> Inl thrown
           | Inr elements \<Rightarrow>
               Inr ((case element of None \<Rightarrow> ''null'' | Some s \<Rightarrow> s) # elements)))"

text \<open>
  \<^verbatim>\<open>JSON.stringify(v)\<close>: the text, or \<^verbatim>\<open>undefined\<close> (\<open>Inr None\<close>) for a value that is
  not serialised, or a thrown \<^verbatim>\<open>TypeError\<close>.
\<close>

definition JSON_stringify :: "jsval \<Rightarrow> jsval + string option" where
  "JSON_stringify v = JSON_property v"

text \<open>A value without a BigInt and without an object on a reference cycle inside.\<close>

fun serialisable :: "jsval \<Rightarrow> bool"
  and serialisable_members :: "(string \<times> jsval) list \<Rightarrow> bool"
  and serialisable_elements :: "jsval list \<Rightarrow> bool" where
  "serialisable (JBigInt n) = False"
| "serialisable JCycle = False"
| "serialisable (JArr vs) = serialisable_elements vs"
| "serialisable (JObj ps) = serialisable_members ps"
| "serialisable JUndefined = True"
| "serialisable JNull = True"
| "serialisable (JBool b) = True"
| "serialisable (JNum n) = True"
| "serialisable (JStr s) = True"
| "serialisable_members [] = True"
| "serialisable_members ((k, v) # ps) = (serialisable v \<and> serialisable_members ps)"
| "serialisable_elements [] = True"
| "serialisable_elements (v # vs) = (serialisable v \<and> serialisable_elements vs)"

subsection \<open>\<^verbatim>\<open>Buffer.toString("base64")\<close>\<close>

definition base64_alphabet :: string where
  "base64_alphabet = ''ABCDEFGHIJKLMNOPQRSTUVWXYZabcdefghijklmnopqrstuvwxyz0123456789+/''"

definition base64_char :: "nat \<Rightarrow> char" where
  "base64_char n = base64_alphabet ! (n mod 64)"

fun toString_base64 :: "8 word list \<Rightarrow> string" where
  "toString_base64 (a # b # c # rest) =
     (let n = unat a * 65536 + unat b * 256 + unat c
      in [base64_char (n div 262144), base64_char (n div 4096), base64_char (n div 64),
          base64_char n]) @ toString_base64 rest"
| "toString_base64 [a, b] =
     (let n = unat a * 65536 + unat b * 256
      in [base64_char (n div 262144), base64_char (n div 4096), base64_char (n div 64),
          CHR ''=''])"
| "toString_base64 [a] =
     (let n = unat a * 65536
      in [base64_char (n div 262144), base64_char (n div 4096), CHR ''='', CHR ''=''])"
| "toString_base64 [] = []"

section \<open>Data of the image handler\<close>

text \<open>\<^verbatim>\<open>process.env\<close>: a variable that is not set reads as \<^verbatim>\<open>undefined\<close>.\<close>

type_synonym env = "string \<rightharpoonup> string"

text \<open>\<^verbatim>\<open>Headers\<close>: a mapping from header names to values.\<close>

type_synonym Headers = "string \<rightharpoonup> jsval"

text \<open>
  The content of an inbound event. The runtime parses the event from JSON, so its values
  are JSON values: the event is an object, and \<^verbatim>\<open>JSON.stringify(event, null, 2)\<close> of
  line 27 and the read of \<^verbatim>\<open>event.requestContext\<close> of line 31 do not throw.
\<close>

datatype json =
    JsonNull
  | JsonBool bool
  | JsonNum int
  | JsonStr string
  | JsonArr "json list"
  | JsonObj "(string \<times> json) list"

text \<open>
  Modelled from the spec: the type \<^verbatim>\<open>ImageHandlerEvent\<close> is declared in \<^verbatim>\<open>./lib\<close>,
  which is not among the sources. The spec gives the event a raw path and an optional
  \<^verbatim>\<open>requestContext\<close>, and the handler reads \<^verbatim>\<open>requestContext\<close> only. The record is
  used as an extensible record, so an event may carry any further fields.
\<close>

record ImageHandlerEvent =
  path :: "string option"
  requestContext :: "(string \<times> json) list option"

text \<open>
  Modelled from the spec: the type \<^verbatim>\<open>ImageRequestInfo\<close> is declared in \<^verbatim>\<open>./lib\<close>,
  which is not among the sources. The fields are those of the spec's RequestInfo, which
  are the ones the handler reads: a key that may be empty, the edits as a mapping, four
  header values, and the optional custom headers. The field \<open>customHeaders\<close> is
  \<^verbatim>\<open>headers\<close> in the source (the name is taken by the result below); \<open>None\<close> is
  \<^verbatim>\<open>undefined\<close>.
\<close>

record ImageRequestInfo =
  key :: string
  edits :: jsobj
  contentType :: jsval
  expires :: jsval
  lastModified :: jsval
  cacheControl :: jsval
  customHeaders :: "Headers option"

text \<open>
  The result of \<^verbatim>\<open>s3Client.getObject(...).promise()\<close>, with the fields the handler reads.
  A fetched object has a \<open>Body\<close>, which is a buffer of bytes.
\<close>

record GetObjectOutput =
  Body :: "8 word list"
  ContentType :: jsval
  LastModified :: jsval

text \<open>
  Modelled from the spec: the type \<^verbatim>\<open>ImageHandlerExecutionResult\<close> is declared in
  \<^verbatim>\<open>./lib\<close>, which is not among the sources. The four fields are those of the object
  literals the handler returns. A \<open>body\<close> of \<open>None\<close> is \<^verbatim>\<open>null\<close>; it also stands for
  the \<^verbatim>\<open>undefined\<close> that \<^verbatim>\<open>JSON.stringify\<close> gives for a value it does not serialise,
  which the handler never gets, as it serialises objects only.
\<close>

record ExecutionResult =
  statusCode :: jsval
  isBase64Encoded :: bool
  headers :: Headers
  body :: "string option"

text \<open>
  Modelled from the spec: the enumeration \<^verbatim>\<open>StatusCodes\<close> is declared in
  \<^verbatim>\<open>./lib\<close>, which is not among the sources. The spec gives 200 for OK, a 301 redirect
  for MOVED and 500 for INTERNAL_SERVER_ERROR.
\<close>

definition StatusCodes_OK :: "54 word" where
  "StatusCodes_OK = 200"

definition StatusCodes_MOVED :: "54 word" where
  "StatusCodes_MOVED = 301"

definition StatusCodes_INTERNAL_SERVER_ERROR :: "54 word" where
  "StatusCodes_INTERNAL_SERVER_ERROR = 500"

text \<open>
  Modelled from the spec: \<^verbatim>\<open>isNullOrWhiteSpace\<close> is imported from
  \<^verbatim>\<open>../solution-utils/helpers\<close>, which is not among the sources. The spec calls a
  value configured when it is non-empty and non-whitespace; so the helper holds of
  \<^verbatim>\<open>undefined\<close>, of the empty string and of a string of white space only.
\<close>

definition is_white_space :: "char \<Rightarrow> bool" where
  "is_white_space c =
     (c = CHR 0x20 \<or> c = CHR 0x09 \<or> c = CHR 0x0A \<or> c = CHR 0x0B \<or> c = CHR 0x0C \<or>
      c = CHR 0x0D \<or> c = CHR 0xA0)"

definition isNullOrWhiteSpace :: "string option \<Rightarrow> bool" where
  "isNullOrWhiteSpace str = (case str of None \<Rightarrow> True | Some s \<Rightarrow> list_all is_white_space s)"

text \<open>
  The external collaborators, as their outcome in one invocation: a promise that rejects
  is \<open>Inl\<close> of the value it rejects with, which may be any value; one that resolves is
  \<open>Inr\<close>.
\<close>

type_synonym 'a setup_fn = "'a ImageHandlerEvent_scheme \<Rightarrow> jsval + ImageRequestInfo"

type_synonym process_fn = "ImageRequestInfo \<Rightarrow> jsval + string"

type_synonym getObject_fn = "string option \<Rightarrow> string option \<Rightarrow> jsval + GetObjectOutput"

definition rejects :: "jsval \<Rightarrow> 'a \<Rightarrow> jsval + 'b" where
  "rejects error x = Inl error"

definition resolves :: "'b \<Rightarrow> 'a \<Rightarrow> jsval + 'b" where
  "resolves v x = Inr v"

definition getObject_rejects :: "jsval \<Rightarrow> getObject_fn" where
  "getObject_rejects error bucket k = Inl error"

definition getObject_resolves :: "GetObjectOutput \<Rightarrow> getObject_fn" where
  "getObject_resolves obj bucket k = Inr obj"

section \<open>The handler\<close>

text \<open>\<^verbatim>\<open>getResponseHeaders(isError, isAlb)\<close>, lines 132 to 153.\<close>

definition getResponseHeaders :: "env \<Rightarrow> bool \<Rightarrow> bool \<Rightarrow> Headers" where
  "getResponseHeaders env isError isAlb =
     (let corsEnabled = (env ''CORS_ENABLED'' = Some ''Yes'');
          h0 = [''Access-Control-Allow-Methods'' \<mapsto> JStr ''GET'',
                ''Access-Control-Allow-Headers'' \<mapsto> JStr ''Content-Type, Authorization''];
          h1 = (if \<not> isAlb then h0(''Access-Control-Allow-Credentials'' \<mapsto> JBool True) else h0);
          h2 = (if corsEnabled
                then h1(''Access-Control-Allow-Origin'' \<mapsto> string_or_undefined (env ''CORS_ORIGIN''))
                else h1);
          h3 = (if isError then h2(''Content-Type'' \<mapsto> JStr ''application/json'') else h2)
      in h3)"

text \<open>
  \<^verbatim>\<open>getRedirectResponse(imageRequestInfo)\<close>, lines 160 to 169. The argument is \<open>None\<close>
  for the object \<^verbatim>\<open>{}\<close> that the handler starts with (line 33), whose \<^verbatim>\<open>key\<close> reads
  as \<^verbatim>\<open>undefined\<close>.
\<close>

definition getRedirectResponse :: "env \<Rightarrow> ImageRequestInfo option \<Rightarrow> ExecutionResult" where
  "getRedirectResponse env imageRequestInfo =
     \<lparr>statusCode = JNum StatusCodes_MOVED,
      isBase64Encoded = False,
      headers = [''Location'' \<mapsto>
        JStr (template (env ''HIGHRES_CDN_URL'') @ ''/'' @ template (map_option key imageRequestInfo))],
      body = None\<rparr>"

text \<open>
  Line 31: \<^verbatim>\<open>event.requestContext && hasOwnProperty.call(event.requestContext, "elb")\<close>.
  The flag is only tested for truthiness, and \<^verbatim>\<open>undefined\<close> selects the default
  \<^verbatim>\<open>false\<close> of \<^verbatim>\<open>getResponseHeaders\<close>, so it is a boolean here.
\<close>

definition isAlb_of :: "'a ImageHandlerEvent_scheme \<Rightarrow> bool" where
  "isAlb_of event =
     (case requestContext event of None \<Rightarrow> False | Some ctx \<Rightarrow> hasOwnProperty ctx ''elb'')"

text \<open>Lines 47 to 64: the response for a processed image.\<close>

definition processedResponse :: "env \<Rightarrow> bool \<Rightarrow> ImageRequestInfo \<Rightarrow> string \<Rightarrow> ExecutionResult" where
  "processedResponse env isAlb imageRequestInfo processedRequest =
     (let h0 = getResponseHeaders env False isAlb;
          h1 = h0(''Content-Type'' \<mapsto> contentType imageRequestInfo);
          h2 = h1(''Expires'' \<mapsto> expires imageRequestInfo);
          h3 = h2(''Last-Modified'' \<mapsto> lastModified imageRequestInfo);
          h4 = h3(''Cache-Control'' \<mapsto> cacheControl imageRequestInfo);
          h5 = (case customHeaders imageRequestInfo of None \<Rightarrow> h4 | Some custom \<Rightarrow> h4 ++ custom)
      in \<lparr>statusCode = JNum StatusCodes_OK,
          isBase64Encoded = True,
          headers = h5,
          body = Some processedRequest\<rparr>)"

text \<open>
  Lines 40 to 64: the body of the \<^verbatim>\<open>try\<close> block after \<^verbatim>\<open>setup\<close> has resolved. A
  rejection of \<^verbatim>\<open>process\<close> is thrown to the \<^verbatim>\<open>catch\<close> block.
\<close>

definition afterSetup :: "env \<Rightarrow> process_fn \<Rightarrow> bool \<Rightarrow> ImageRequestInfo \<Rightarrow> jsval + ExecutionResult" where
  "afterSetup env imageHandler_process isAlb imageRequestInfo =
     (if length (Object_keys (edits imageRequestInfo)) = 0 \<and> key imageRequestInfo \<noteq> ''''
      then Inr (getRedirectResponse env (Some imageRequestInfo))
      else (case imageHandler_process imageRequestInfo of
              Inl error \<Rightarrow> Inl error
            | Inr processedRequest \<Rightarrow>
                Inr (processedResponse env isAlb imageRequestInfo processedRequest)))"

text \<open>
  Lines 88 to 98: the response that carries the default fallback image, built inside the
  inner \<^verbatim>\<open>try\<close> block. It reads \<^verbatim>\<open>error.status\<close> (line 94).
\<close>

definition fallbackImageResponse ::
  "env \<Rightarrow> bool \<Rightarrow> jsval \<Rightarrow> GetObjectOutput \<Rightarrow> jsval + ExecutionResult" where
  "fallbackImageResponse env isAlb error defaultFallbackImage =
     (let h0 = getResponseHeaders env False isAlb;
          h1 = h0(''Content-Type'' \<mapsto> ContentType defaultFallbackImage);
          h2 = h1(''Last-Modified'' \<mapsto> LastModified defaultFallbackImage);
          h3 = h2(''Cache-Control'' \<mapsto> JStr ''max-age=31536000,public'')
      in case read_member error ''status'' of
           Inl thrown \<Rightarrow> Inl thrown
         | Inr status \<Rightarrow>
             Inr \<lparr>statusCode = (if truthy status then status
                                 else JNum StatusCodes_INTERNAL_SERVER_ERROR),
                  isBase64Encoded = True,
                  headers = h3,
                  body = Some (toString_base64 (Body defaultFallbackImage))\<rparr>)"

text \<open>
  Lines 104 to 122: the structured error response. It reads \<^verbatim>\<open>error.status\<close>, and
  \<^verbatim>\<open>JSON.stringify\<close> of lines 109 and 116 may throw; nothing catches that.
\<close>

definition errorResponse :: "env \<Rightarrow> bool \<Rightarrow> jsval \<Rightarrow> jsval + ExecutionResult" where
  "errorResponse env isAlb error =
     (case read_member error ''status'' of
        Inl thrown \<Rightarrow> Inl thrown
      | Inr status \<Rightarrow>
          if truthy status
          then (case JSON_stringify error of
                  Inl thrown \<Rightarrow> Inl thrown
                | Inr text \<Rightarrow>
                    Inr \<lparr>statusCode = status,
                         isBase64Encoded = False,
                         headers = getResponseHeaders env True isAlb,
                         body = text\<rparr>)
          else (case JSON_stringify (JObj
                  [(''message'', JStr ''Internal error. Please contact the system administrator.''),
                   (''code'', JStr ''InternalError''),
                   (''status'', JNum StatusCodes_INTERNAL_SERVER_ERROR)]) of
                  Inl thrown \<Rightarrow> Inl thrown
                | Inr text \<Rightarrow>
                    Inr \<lparr>statusCode = JNum StatusCodes_INTERNAL_SERVER_ERROR,
                         isBase64Encoded = False,
                         headers = getResponseHeaders env True isAlb,
                         body = text\<rparr>))"

text \<open>
  Lines 80 to 98: the inner \<^verbatim>\<open>try\<close> block, which fetches the default fallback image and
  returns the response that carries it.
\<close>

definition innerTryBlock ::
  "env \<Rightarrow> getObject_fn \<Rightarrow> bool \<Rightarrow> jsval \<Rightarrow> jsval + ExecutionResult" where
  "innerTryBlock env s3_getObject isAlb error =
     (case s3_getObject (env ''DEFAULT_FALLBACK_IMAGE_BUCKET'') (env ''DEFAULT_FALLBACK_IMAGE_KEY'') of
        Inl fetchError \<Rightarrow> Inl fetchError
      | Inr defaultFallbackImage \<Rightarrow> fallbackImageResponse env isAlb error defaultFallbackImage)"

text \<open>
  Lines 65 to 123: the \<^verbatim>\<open>catch\<close> block, for the caught value and the value that
  \<^verbatim>\<open>imageRequestInfo\<close> has when it is caught. The read of \<^verbatim>\<open>error.code\<close> (line 69)
  throws when the caught value is \<^verbatim>\<open>undefined\<close> or \<^verbatim>\<open>null\<close>. Whatever the inner
  \<^verbatim>\<open>try\<close> block throws is caught by the inner \<^verbatim>\<open>catch\<close> (line 99), which logs it and
  falls through to line 104. \<open>Inl\<close> is a value thrown out of the \<^verbatim>\<open>catch\<close> block.
\<close>

definition catchBlock ::
  "env \<Rightarrow> getObject_fn \<Rightarrow> bool \<Rightarrow> ImageRequestInfo option \<Rightarrow> jsval \<Rightarrow> jsval + ExecutionResult" where
  "catchBlock env s3_getObject isAlb imageRequestInfo error =
     (case read_member error ''code'' of
        Inl thrown \<Rightarrow> Inl thrown
      | Inr code \<Rightarrow>
          if code = JStr ''TooLargeImageException''
          then Inr (getRedirectResponse env imageRequestInfo)
          else
            (let ENABLE_DEFAULT_FALLBACK_IMAGE = env ''ENABLE_DEFAULT_FALLBACK_IMAGE'';
                 DEFAULT_FALLBACK_IMAGE_BUCKET = env ''DEFAULT_FALLBACK_IMAGE_BUCKET'';
                 DEFAULT_FALLBACK_IMAGE_KEY = env ''DEFAULT_FALLBACK_IMAGE_KEY''
             in if ENABLE_DEFAULT_FALLBACK_IMAGE = Some ''Yes'' \<and>
                   \<not> isNullOrWhiteSpace DEFAULT_FALLBACK_IMAGE_BUCKET \<and>
                   \<not> isNullOrWhiteSpace DEFAULT_FALLBACK_IMAGE_KEY
                then (case innerTryBlock env s3_getObject isAlb error of
                        Inr response \<Rightarrow> Inr response
                      | Inl caught \<Rightarrow> errorResponse env isAlb error)
                else errorResponse env isAlb error))"

text \<open>
  Lines 35 to 64: the \<^verbatim>\<open>try\<close> block. It returns the value that the variable
  \<^verbatim>\<open>imageRequestInfo\<close> has when the block is left (\<open>None\<close> is the object \<^verbatim>\<open>{}\<close> of
  line 33, which is still there when \<^verbatim>\<open>setup\<close> rejects), and the way the block is left:
  \<open>Inl\<close> for a value thrown to the \<^verbatim>\<open>catch\<close> block, \<open>Inr\<close> for a returned response.
\<close>

definition tryBlock ::
  "env \<Rightarrow> 'a setup_fn \<Rightarrow> process_fn \<Rightarrow> bool \<Rightarrow> 'a ImageHandlerEvent_scheme \<Rightarrow>
   ImageRequestInfo option \<times> (jsval + ExecutionResult)" where
  "tryBlock env imageRequest_setup imageHandler_process isAlb event =
     (case imageRequest_setup event of
        Inl error \<Rightarrow> (None, Inl error)
      | Inr imageRequestInfo \<Rightarrow>
          (Some imageRequestInfo, afterSetup env imageHandler_process isAlb imageRequestInfo))"

text \<open>
  Lines 26 to 124: the handler. \<open>Inr\<close> is the result the returned promise resolves to,
  \<open>Inl\<close> the value it rejects with, which is a value thrown out of the \<^verbatim>\<open>catch\<close> block.
\<close>

definition handler ::
  "env \<Rightarrow> 'a setup_fn \<Rightarrow> process_fn \<Rightarrow> getObject_fn \<Rightarrow> 'a ImageHandlerEvent_scheme \<Rightarrow>
   jsval + ExecutionResult" where
  "handler env imageRequest_setup imageHandler_process s3_getObject event =
     (let isAlb = isAlb_of event;
          (imageRequestInfo, outcome) =
             tryBlock env imageRequest_setup imageHandler_process isAlb event
      in case outcome of
           Inr response \<Rightarrow> Inr response
         | Inl error \<Rightarrow> catchBlock env s3_getObject isAlb imageRequestInfo error)"

text \<open>
  The error object after \<^verbatim>\<open>delete error.status\<close>; it is used to state that a falsy
  status is handled like an absent one.
\<close>

definition without_status :: "jsobj \<Rightarrow> jsobj" where
  "without_status error = filter (\<lambda>(k, v). k \<noteq> ''status'') error"

text \<open>
  A caught value that the \<^verbatim>\<open>catch\<close> block can report: it is not \<^verbatim>\<open>undefined\<close> or
  \<^verbatim>\<open>null\<close>, and if its status is truthy then \<^verbatim>\<open>JSON.stringify\<close> does not throw on it.
\<close>

definition reportable :: "jsval \<Rightarrow> bool" where
  "reportable error =
     (case read_member error ''status'' of
        Inl thrown \<Rightarrow> False
      | Inr status \<Rightarrow> \<not> truthy status \<or> serialisable error)"

section \<open>Example inputs\<close>

definition example_env :: env where
  "example_env =
     [''HIGHRES_CDN_URL'' \<mapsto> ''https://cdn.example.com'',
      ''CORS_ENABLED'' \<mapsto> ''Yes'',
      ''CORS_ORIGIN'' \<mapsto> ''*'']"

definition fallback_env :: env where
  "fallback_env =
     [''HIGHRES_CDN_URL'' \<mapsto> ''https://cdn.example.com'',
      ''ENABLE_DEFAULT_FALLBACK_IMAGE'' \<mapsto> ''Yes'',
      ''DEFAULT_FALLBACK_IMAGE_BUCKET'' \<mapsto> ''fallback-bucket'',
      ''DEFAULT_FALLBACK_IMAGE_KEY'' \<mapsto> ''fallback.jpg'']"

definition api_event :: ImageHandlerEvent where
  "api_event = \<lparr>path = Some ''/cat.jpg'', requestContext = Some [(''requestId'', JsonStr ''r1'')]\<rparr>"

definition alb_event :: ImageHandlerEvent where
  "alb_event =
     \<lparr>path = Some ''/cat.jpg'',
      requestContext = Some [(''elb'', JsonObj [(''targetGroupArn'', JsonStr ''arn:tg'')])]\<rparr>"

definition cat_info :: ImageRequestInfo where
  "cat_info =
     \<lparr>key = ''cat.jpg'', edits = [], contentType = JStr ''image/jpeg'', expires = JUndefined,
      lastModified = JUndefined, cacheControl = JStr ''max-age=60'', customHeaders = None\<rparr>"

definition big_info :: ImageRequestInfo where
  "big_info =
     \<lparr>key = ''big.png'',
      edits = [(''resize'', JObj [(''width'', JNum 100)])],
      contentType = JStr ''image/png'', expires = JStr ''Thu, 01 Jan 2026 00:00:00 GMT'',
      lastModified = JStr ''Wed, 01 Jan 2025 00:00:00 GMT'', cacheControl = JStr ''max-age=60'',
      customHeaders = Some [''Cache-Control'' \<mapsto> JStr ''no-store'']\<rparr>"

definition plain_info :: ImageRequestInfo where
  "plain_info =
     \<lparr>key = ''dog.png'',
      edits = [(''grayscale'', JBool True)],
      contentType = JStr ''image/png'', expires = JUndefined,
      lastModified = JUndefined, cacheControl = JStr ''max-age=60'',
      customHeaders = None\<rparr>"

definition too_large_error :: jsobj where
  "too_large_error =
     [(''status'', JNum 413), (''code'', JStr ''TooLargeImageException''),
      (''message'', JStr ''The converted image is too large to return.'')]"

definition bad_request_error :: jsobj where
  "bad_request_error =
     [(''status'', JNum 400), (''code'', JStr ''BadRequest''), (''message'', JStr ''invalid edits'')]"

definition zero_status_error :: jsobj where
  "zero_status_error =
     [(''status'', JNum 0), (''code'', JStr ''Aborted''), (''message'', JStr ''aborted'')]"

definition status_only_error :: jsobj where
  "status_only_error = [(''status'', JNum 404)]"

definition cyclic_error :: jsobj where
  "cyclic_error = [(''status'', JNum 400), (''code'', JStr ''BadRequest''), (''self'', JCycle)]"

definition fallback_object :: GetObjectOutput where
  "fallback_object =
     \<lparr>Body = [77, 97, 110], ContentType = JStr ''image/png'',
      LastModified = JStr ''Wed, 01 Jan 2025 00:00:00 GMT''\<rparr>"

section \<open>Basic facts\<close>

lemma template_Some: "template (Some s) = s"
  by (simp add: template_def)

lemma template_None: "template None = ''undefined''"
  by (simp add: template_def)

lemma generic_body:
  \<open>JSON_stringify (JObj
     [(''message'', JStr ''Internal error. Please contact the system administrator.''),
      (''code'', JStr ''InternalError''),
      (''status'', JNum 500)]) =
   Inr (Some ''{"message":"Internal error. Please contact the system administrator.","code":"InternalError","status":500}'')\<close>
  by (simp add: JSON_stringify_def QuoteJSONString_def escape_char_def Number_toString_def
      decimal_digit_def)

lemma JSON_returns_iff:
  "(\<exists>text. JSON_property v = Inr text) \<longleftrightarrow> serialisable v"
  "(\<exists>members. JSON_members ps = Inr members) \<longleftrightarrow> serialisable_members ps"
  "(\<exists>elements. JSON_elements vs = Inr elements) \<longleftrightarrow> serialisable_elements vs"
  by (induction v and ps and vs rule: JSON_property_JSON_members_JSON_elements.induct)
    (auto split: sum.splits option.splits)

lemma JSON_throws_TypeError:
  "JSON_property v = Inl thrown \<Longrightarrow> thrown = TypeError"
  "JSON_members ps = Inl thrown \<Longrightarrow> thrown = TypeError"
  "JSON_elements vs = Inl thrown \<Longrightarrow> thrown = TypeError"
  by (induction v and ps and vs rule: JSON_property_JSON_members_JSON_elements.induct)
    (auto split: sum.splits option.splits)

lemma JSON_stringify_object:
  "JSON_stringify (JObj ps) = Inr text \<Longrightarrow>
   \<exists>members. JSON_members ps = Inr members \<and> text = Some (''{'' @ join '','' members @ ''}'')"
  by (auto simp add: JSON_stringify_def split: sum.splits)

lemma JSON_stringify_serialisable:
  "serialisable v \<longleftrightarrow> (\<exists>text. JSON_stringify v = Inr text)"
  by (simp add: JSON_stringify_def JSON_returns_iff)

lemma JSON_stringify_not_serialisable:
  "\<not> serialisable v \<Longrightarrow> JSON_stringify v = Inl TypeError"
proof -
  assume "\<not> serialisable v"
  then have "\<not> (\<exists>text. JSON_stringify v = Inr text)"
    by (simp add: JSON_stringify_serialisable)
  then obtain thrown where t: "JSON_stringify v = Inl thrown"
    by (cases "JSON_stringify v") auto
  then have "thrown = TypeError"
    by (simp add: JSON_stringify_def JSON_throws_TypeError)
  with t show ?thesis by simp
qed

lemma JSON_members_property:
  "JSON_members error = Inr members \<Longrightarrow> JSON_property (property error k) = Inr (Some s) \<Longrightarrow>
   QuoteJSONString k @ '':'' @ s \<in> set members"
proof (induction error arbitrary: members)
  case Nil
  then show ?case by (simp add: property_def)
next
  case (Cons p ps)
  obtain k' v' where p: "p = (k', v')" by (cases p)
  from Cons.prems(1) p obtain rest where rest: "JSON_members ps = Inr rest"
    by (auto split: sum.splits option.splits)
  show ?case
  proof (cases "k' = k")
    case True
    with Cons.prems p rest show ?thesis by (auto simp add: property_def)
  next
    case False
    with Cons.prems p have "JSON_property (property ps k) = Inr (Some s)"
      by (simp add: property_def)
    with rest have "QuoteJSONString k @ '':'' @ s \<in> set rest"
      by (rule Cons.IH)
    with Cons.prems(1) p rest show ?thesis
      by (auto split: sum.splits option.splits)
  qed
qed

lemma truthy_JSON_property:
  "truthy v \<Longrightarrow> serialisable v \<Longrightarrow> \<exists>s. JSON_property v = Inr (Some s)"
  by (cases v) (auto simp add: JSON_returns_iff [symmetric] split: sum.splits)

lemma JSON_members_serialised:
  "JSON_members error = Inr members \<Longrightarrow> \<exists>r. JSON_property (property error k) = Inr r"
proof (induction error arbitrary: members)
  case Nil
  then show ?case by (simp add: property_def)
next
  case (Cons p ps)
  obtain k' v' where p: "p = (k', v')" by (cases p)
  from Cons.prems p obtain rest where rest: "JSON_members ps = Inr rest"
    by (auto split: sum.splits option.splits)
  from Cons.prems p obtain r' where r': "JSON_property v' = Inr r'"
    by (auto split: sum.splits option.splits)
  show ?case
  proof (cases "k' = k")
    case True
    with p r' show ?thesis by (simp add: property_def)
  next
    case False
    with p Cons.IH [OF rest] show ?thesis by (simp add: property_def)
  qed
qed

lemma JSON_members_status:
  assumes "JSON_members error = Inr members" and "truthy (property error k)"
  shows "\<exists>s. QuoteJSONString k @ '':'' @ s \<in> set members"
proof -
  from JSON_members_serialised [OF assms(1)]
  obtain r where r: "JSON_property (property error k) = Inr r" by blast
  have "r \<noteq> None"
  proof
    assume "r = None"
    with r have "property error k = JUndefined"
      by (cases "property error k") (auto split: sum.splits)
    with assms(2) show False by simp
  qed
  then obtain s where "r = Some s" by auto
  with r JSON_members_property [OF assms(1)] show ?thesis by blast
qed

subsection \<open>The blocks of the handler\<close>

lemma fallbackImageResponse_object:
  "fallbackImageResponse env isAlb (JObj error) fetched =
     Inr \<lparr>statusCode =
            (if truthy (property error ''status'') then property error ''status'' else JNum 500),
          isBase64Encoded = True,
          headers = (getResponseHeaders env False isAlb)
            (''Content-Type'' \<mapsto> ContentType fetched,
             ''Last-Modified'' \<mapsto> LastModified fetched,
             ''Cache-Control'' \<mapsto> JStr ''max-age=31536000,public''),
          body = Some (toString_base64 (Body fetched))\<rparr>"
  by (simp add: fallbackImageResponse_def Let_def StatusCodes_INTERNAL_SERVER_ERROR_def)

lemma errorResponse_falsy_status:
  \<open>read_member error ''status'' = Inr status \<Longrightarrow> \<not> truthy status \<Longrightarrow>
   errorResponse env isAlb error =
     Inr \<lparr>statusCode = JNum 500,
          isBase64Encoded = False,
          headers = getResponseHeaders env True isAlb,
          body = Some ''{"message":"Internal error. Please contact the system administrator.","code":"InternalError","status":500}''\<rparr>\<close>
  by (simp add: errorResponse_def StatusCodes_INTERNAL_SERVER_ERROR_def generic_body)

lemma errorResponse_truthy_status:
  "read_member error ''status'' = Inr status \<Longrightarrow> truthy status \<Longrightarrow>
   errorResponse env isAlb error =
     (case JSON_stringify error of
        Inl thrown \<Rightarrow> Inl thrown
      | Inr text \<Rightarrow>
          Inr \<lparr>statusCode = status,
               isBase64Encoded = False,
               headers = getResponseHeaders env True isAlb,
               body = text\<rparr>)"
  by (simp add: errorResponse_def)

lemma read_member_cases:
  "(read_member error k = Inl TypeError \<and> (error = JUndefined \<or> error = JNull)) \<or>
   (\<exists>v. read_member error k = Inr v \<and> error \<noteq> JUndefined \<and> error \<noteq> JNull)"
  by (cases error) simp_all

lemma read_member_other_name:
  "read_member error k = Inr v \<Longrightarrow> \<exists>w. read_member error k' = Inr w"
  by (cases error) simp_all

lemma errorResponse_reportable:
  assumes "reportable error"
  shows "\<exists>response. errorResponse env isAlb error = Inr response"
proof -
  from assms obtain status where s: "read_member error ''status'' = Inr status"
    and ok: "\<not> truthy status \<or> serialisable error"
    by (auto simp add: reportable_def split: sum.splits)
  show ?thesis
  proof (cases "truthy status")
    case False
    with s show ?thesis by (simp add: errorResponse_falsy_status)
  next
    case True
    with ok obtain serialised where "JSON_stringify error = Inr serialised"
      by (auto simp add: JSON_stringify_serialisable)
    with s True show ?thesis by (simp add: errorResponse_truthy_status)
  qed
qed

lemma fallbackImageResponse_reportable:
  assumes "reportable error"
  shows "\<exists>response. fallbackImageResponse env isAlb error fetched = Inr response"
  using assms
  by (auto simp add: reportable_def fallbackImageResponse_def Let_def split: sum.splits)

lemma catchBlock_reportable:
  assumes "reportable error"
  shows "\<exists>response. catchBlock env s3_getObject isAlb info error = Inr response"
proof -
  from assms obtain status where "read_member error ''status'' = Inr status"
    by (auto simp add: reportable_def split: sum.splits)
  then obtain code where c: "read_member error ''code'' = Inr code"
    using read_member_other_name by blast
  from errorResponse_reportable [OF assms]
  obtain r1 where r1: "errorResponse env isAlb error = Inr r1" by blast
  show ?thesis
  proof (cases "innerTryBlock env s3_getObject isAlb error")
    case (Inl caught)
    with c r1 show ?thesis by (simp add: catchBlock_def Let_def)
  next
    case (Inr response)
    with c r1 show ?thesis by (simp add: catchBlock_def Let_def)
  qed
qed

lemma catchBlock_nullish:
  "error = JUndefined \<or> error = JNull \<Longrightarrow>
   catchBlock env s3_getObject isAlb info error = Inl TypeError"
  by (auto simp add: catchBlock_def)

text \<open>
  The values that reach the catch block are the rejections of \<^verbatim>\<open>setup\<close> and of
  \<^verbatim>\<open>process\<close>, and \<^verbatim>\<open>process\<close> is only called behind the gate of line 40.
\<close>

lemma tryBlock_Inl_cases:
  assumes "tryBlock env imageRequest_setup imageHandler_process isAlb event = (info, Inl error)"
  shows "(imageRequest_setup event = Inl error \<and> info = None) \<or>
         (\<exists>i. imageRequest_setup event = Inr i \<and> info = Some i \<and>
              \<not> (edits i = [] \<and> key i \<noteq> '''') \<and> imageHandler_process i = Inl error)"
  using assms
  by (auto simp add: tryBlock_def afterSetup_def Object_keys_def split: sum.splits if_splits)

lemma tryBlock_setup_rejects:
  "imageRequest_setup event = Inl error \<Longrightarrow>
   tryBlock env imageRequest_setup imageHandler_process isAlb event = (None, Inl error)"
  by (simp add: tryBlock_def)

lemma tryBlock_process_rejects:
  "imageRequest_setup event = Inr info \<Longrightarrow> \<not> (edits info = [] \<and> key info \<noteq> '''') \<Longrightarrow>
   imageHandler_process info = Inl error \<Longrightarrow>
   tryBlock env imageRequest_setup imageHandler_process isAlb event = (Some info, Inl error)"
  by (auto simp add: tryBlock_def afterSetup_def Object_keys_def)

lemma tryBlock_Inr_cases:
  assumes "tryBlock env imageRequest_setup imageHandler_process isAlb event = (info, Inr response)"
  shows "\<exists>i. imageRequest_setup event = Inr i \<and> info = Some i \<and>
           ((edits i = [] \<and> key i \<noteq> '''' \<and> response = getRedirectResponse env (Some i)) \<or>
            (\<not> (edits i = [] \<and> key i \<noteq> '''') \<and>
             (\<exists>payload. imageHandler_process i = Inr payload \<and>
                response = processedResponse env isAlb i payload)))"
  using assms
  by (auto simp add: tryBlock_def afterSetup_def Object_keys_def split: sum.splits if_splits)

lemma handler_caught:
  assumes "tryBlock env imageRequest_setup imageHandler_process (isAlb_of event) event =
             (info, Inl error)"
  shows "handler env imageRequest_setup imageHandler_process s3_getObject event =
           catchBlock env s3_getObject (isAlb_of event) info error"
  using assms by (simp add: handler_def)

lemma handler_returned:
  assumes "tryBlock env imageRequest_setup imageHandler_process (isAlb_of event) event =
             (info, Inr response)"
  shows "handler env imageRequest_setup imageHandler_process s3_getObject event = Inr response"
  using assms by (simp add: handler_def)

text \<open>The catch block, for a caught object, by the tier that answers.\<close>

lemma catchBlock_too_large:
  "property error ''code'' = JStr ''TooLargeImageException'' \<Longrightarrow>
   catchBlock env s3_getObject isAlb info (JObj error) = Inr (getRedirectResponse env info)"
  by (simp add: catchBlock_def)

lemma catchBlock_fallback:
  assumes "property error ''code'' \<noteq> JStr ''TooLargeImageException''"
    and "env ''ENABLE_DEFAULT_FALLBACK_IMAGE'' = Some ''Yes''"
    and "\<not> isNullOrWhiteSpace (env ''DEFAULT_FALLBACK_IMAGE_BUCKET'')"
    and "\<not> isNullOrWhiteSpace (env ''DEFAULT_FALLBACK_IMAGE_KEY'')"
    and "s3_getObject (env ''DEFAULT_FALLBACK_IMAGE_BUCKET'') (env ''DEFAULT_FALLBACK_IMAGE_KEY'') =
           Inr fetched"
  shows "catchBlock env s3_getObject isAlb info (JObj error) =
           fallbackImageResponse env isAlb (JObj error) fetched"
  using assms
  by (simp add: catchBlock_def innerTryBlock_def Let_def fallbackImageResponse_object)

lemma catchBlock_structured:
  assumes "property error ''code'' \<noteq> JStr ''TooLargeImageException''"
    and "env ''ENABLE_DEFAULT_FALLBACK_IMAGE'' \<noteq> Some ''Yes'' \<or>
         isNullOrWhiteSpace (env ''DEFAULT_FALLBACK_IMAGE_BUCKET'') \<or>
         isNullOrWhiteSpace (env ''DEFAULT_FALLBACK_IMAGE_KEY'') \<or>
         (\<exists>fetchError.
            s3_getObject (env ''DEFAULT_FALLBACK_IMAGE_BUCKET'') (env ''DEFAULT_FALLBACK_IMAGE_KEY'') =
              Inl fetchError)"
  shows "catchBlock env s3_getObject isAlb info (JObj error) = errorResponse env isAlb (JObj error)"
  using assms
  by (auto simp add: catchBlock_def innerTryBlock_def Let_def)

lemma catchBlock_object_cases:
  assumes "property error ''code'' \<noteq> JStr ''TooLargeImageException''"
  shows "(\<exists>fetched.
            s3_getObject (env ''DEFAULT_FALLBACK_IMAGE_BUCKET'') (env ''DEFAULT_FALLBACK_IMAGE_KEY'') =
              Inr fetched \<and>
            catchBlock env s3_getObject isAlb info (JObj error) =
              fallbackImageResponse env isAlb (JObj error) fetched) \<or>
         catchBlock env s3_getObject isAlb info (JObj error) = errorResponse env isAlb (JObj error)"
  using assms
  by (auto simp add: catchBlock_def innerTryBlock_def Let_def fallbackImageResponse_object
      split: sum.splits)

subsection \<open>The headers of each response\<close>

lemma headers_getRedirectResponse:
  "headers (getRedirectResponse env info) =
     [''Location'' \<mapsto>
        JStr (template (env ''HIGHRES_CDN_URL'') @ ''/'' @ template (map_option key info))]"
  by (simp add: getRedirectResponse_def)

lemma headers_processedResponse:
  "headers (processedResponse env isAlb info payload) =
     (let built = (getResponseHeaders env False isAlb)
            (''Content-Type'' \<mapsto> contentType info,
             ''Expires'' \<mapsto> expires info,
             ''Last-Modified'' \<mapsto> lastModified info,
             ''Cache-Control'' \<mapsto> cacheControl info)
      in case customHeaders info of None \<Rightarrow> built | Some custom \<Rightarrow> built ++ custom)"
  by (simp add: processedResponse_def Let_def)

lemma headers_fallbackImageResponse:
  "fallbackImageResponse env isAlb error fetched = Inr response \<Longrightarrow>
   headers response =
     (getResponseHeaders env False isAlb)
       (''Content-Type'' \<mapsto> ContentType fetched, ''Last-Modified'' \<mapsto> LastModified fetched,
        ''Cache-Control'' \<mapsto> JStr ''max-age=31536000,public'')"
  by (auto simp add: fallbackImageResponse_def Let_def split: sum.splits)

lemma headers_errorResponse:
  "errorResponse env isAlb error = Inr response \<Longrightarrow>
   headers response = getResponseHeaders env True isAlb"
  by (auto simp add: errorResponse_def split: sum.splits if_splits)

text \<open>The response of the catch block is one of three, each built with the flag given.\<close>

lemma catchBlock_cases:
  assumes "catchBlock env s3_getObject isAlb info error = Inr response"
  shows "response = getRedirectResponse env info \<or>
         (\<exists>fetched.
            s3_getObject (env ''DEFAULT_FALLBACK_IMAGE_BUCKET'') (env ''DEFAULT_FALLBACK_IMAGE_KEY'') =
              Inr fetched \<and>
            fallbackImageResponse env isAlb error fetched = Inr response) \<or>
         errorResponse env isAlb error = Inr response"
  using assms
  by (auto simp add: catchBlock_def innerTryBlock_def Let_def split: if_splits sum.splits)

text \<open>The custom headers of the request win over every header set before them.\<close>

lemma processedResponse_custom_wins:
  assumes "customHeaders info = Some custom" and "custom name = Some v"
  shows "headers (processedResponse env isAlb info payload) name = Some v"
  using assms by (simp add: processedResponse_def Let_def map_add_def)

lemma processedResponse_without_custom:
  assumes "customHeaders info = None"
  shows "headers (processedResponse env isAlb info payload) ''Content-Type'' = Some (contentType info)"
    and "headers (processedResponse env isAlb info payload) ''Expires'' = Some (expires info)"
    and "headers (processedResponse env isAlb info payload) ''Last-Modified'' =
           Some (lastModified info)"
    and "headers (processedResponse env isAlb info payload) ''Cache-Control'' =
           Some (cacheControl info)"
  using assms by (simp_all add: processedResponse_def Let_def)

subsection \<open>A falsy status\<close>

lemma property_without_status:
  "property (without_status error) k = (if k = ''status'' then JUndefined else property error k)"
  by (induction error) (auto simp add: property_def without_status_def)

lemma errorResponse_falsy:
  "\<not> truthy (property error ''status'') \<Longrightarrow>
   errorResponse env isAlb (JObj error) = errorResponse env isAlb (JObj (without_status error))"
  by (simp add: errorResponse_falsy_status property_without_status)

lemma fallbackImageResponse_falsy:
  "\<not> truthy (property error ''status'') \<Longrightarrow>
   fallbackImageResponse env isAlb (JObj error) fetched =
   fallbackImageResponse env isAlb (JObj (without_status error)) fetched"
  by (simp add: fallbackImageResponse_object property_without_status)

lemma catchBlock_falsy:
  assumes "\<not> truthy (property error ''status'')"
  shows "catchBlock env s3_getObject isAlb info (JObj error) =
         catchBlock env s3_getObject isAlb info (JObj (without_status error))"
  using errorResponse_falsy [OF assms] fallbackImageResponse_falsy [OF assms]
  by (simp add: catchBlock_def innerTryBlock_def property_without_status Let_def
      split: sum.split)

subsection \<open>The origin flag\<close>

lemma isAlb_of_iff:
  "isAlb_of event \<longleftrightarrow> (\<exists>ctx. requestContext event = Some ctx \<and> ''elb'' \<in> fst ` set ctx)"
  by (simp add: isAlb_of_def hasOwnProperty_def split: option.split)

lemma handler_depends_on_flag:
  assumes "isAlb_of event1 = isAlb_of event2" and "setup1 event1 = setup2 event2"
  shows "handler env setup1 imageHandler_process s3_getObject event1 =
         handler env setup2 imageHandler_process s3_getObject event2"
  using assms by (simp add: handler_def tryBlock_def)

text \<open>What leaves the catch block is a \<^verbatim>\<open>TypeError\<close>, for a value that is not reportable.\<close>

lemma errorResponse_throws_TypeError:
  "errorResponse env isAlb error = Inl thrown \<Longrightarrow> thrown = TypeError"
  by (cases error)
    (auto simp add: errorResponse_def JSON_stringify_def generic_body [unfolded JSON_stringify_def]
      StatusCodes_INTERNAL_SERVER_ERROR_def dest: JSON_throws_TypeError
      split: sum.splits if_splits)

lemma catchBlock_throws_TypeError:
  assumes "catchBlock env s3_getObject isAlb info error = Inl thrown"
  shows "thrown = TypeError \<and> \<not> reportable error"
proof
  show "\<not> reportable error"
    using assms catchBlock_reportable [of error env s3_getObject isAlb info] by auto
  show "thrown = TypeError"
  proof (cases "read_member error ''code''")
    case (Inl t)
    then have "t = TypeError" by (cases error) simp_all
    with Inl assms show ?thesis by (simp add: catchBlock_def)
  next
    case (Inr code)
    with assms have "errorResponse env isAlb error = Inl thrown"
      by (auto simp add: catchBlock_def Let_def split: if_splits sum.splits)
    then show ?thesis by (rule errorResponse_throws_TypeError)
  qed
qed

lemma handler_throws_TypeError:
  assumes "handler env imageRequest_setup imageHandler_process s3_getObject event = Inl thrown"
  shows "thrown = TypeError \<and>
         (\<exists>info error.
            tryBlock env imageRequest_setup imageHandler_process (isAlb_of event) event =
              (info, Inl error) \<and> \<not> reportable error)"
proof (cases "tryBlock env imageRequest_setup imageHandler_process (isAlb_of event) event")
  case (Pair info outcome)
  show ?thesis
  proof (cases outcome)
    case (Inl error)
    with Pair assms have "catchBlock env s3_getObject (isAlb_of event) info error = Inl thrown"
      by (simp add: handler_def)
    from catchBlock_throws_TypeError [OF this] Pair Inl show ?thesis by blast
  next
    case (Inr response)
    with Pair assms show ?thesis by (simp add: handler_def)
  qed
qed

section \<open>The handler and the values it cannot report\<close>




section \<open>The redirect without edits\<close>

text \<open>
  Claim C2. When \<^verbatim>\<open>setup\<close> resolves to a request whose edits are empty and whose key is
  not the empty string, the handler returns status 301, not base64 encoded, with a null
  body and the single header Location, which is the template literal
  \<^verbatim>\<open>${process.env.HIGHRES_CDN_URL}/${key}\<close>; the image is not processed, so the result
  does not depend on \<^verbatim>\<open>process\<close>.
\<close>

theorem no_edits_redirect:
  assumes "imageRequest_setup event = Inr info"
    and "edits info = []"
    and "key info \<noteq> ''''"
  shows "handler env imageRequest_setup imageHandler_process s3_getObject event =
    Inr \<lparr>statusCode = JNum 301,
         isBase64Encoded = False,
         headers = [''Location'' \<mapsto> JStr (template (env ''HIGHRES_CDN_URL'') @ ''/'' @ key info)],
         body = None\<rparr>"
  using assms
  by (simp add: handler_def tryBlock_def afterSetup_def Object_keys_def getRedirectResponse_def
      template_Some StatusCodes_MOVED_def)

text \<open>The example of the spec: the key \<^verbatim>\<open>cat.jpg\<close> without edits.\<close>

theorem no_edits_redirect_witness:
  "handler example_env (resolves cat_info) (rejects (JObj bad_request_error))
     (getObject_rejects (JObj [])) api_event =
    Inr \<lparr>statusCode = JNum 301,
         isBase64Encoded = False,
         headers = [''Location'' \<mapsto> JStr ''https://cdn.example.com/cat.jpg''],
         body = None\<rparr>"
  using no_edits_redirect [where imageRequest_setup = "resolves cat_info" and event = api_event
      and info = cat_info and env = example_env
      and imageHandler_process = "rejects (JObj bad_request_error)"
      and ?s3_getObject = "getObject_rejects (JObj [])"]
  by (simp add: resolves_def cat_info_def example_env_def template_def)

section \<open>The response for a processed image\<close>

text \<open>
  Claim C3. When \<^verbatim>\<open>setup\<close> resolves to a request that does not take the redirect of
  line 40 and \<^verbatim>\<open>process\<close> resolves to a payload, the handler returns status 200, base64
  encoded, with the payload as body. The headers are those of the header builder for a
  success, overlaid with Content-Type, Expires, Last-Modified and Cache-Control of the
  request, and then overlaid with the custom headers of the request when it has them.
\<close>

theorem processed_response:
  assumes "imageRequest_setup event = Inr info"
    and "\<not> (edits info = [] \<and> key info \<noteq> '''')"
    and "imageHandler_process info = Inr payload"
  shows "handler env imageRequest_setup imageHandler_process s3_getObject event =
    Inr \<lparr>statusCode = JNum 200,
         isBase64Encoded = True,
         headers =
           (let built = (getResponseHeaders env False (isAlb_of event))
                  (''Content-Type'' \<mapsto> contentType info,
                   ''Expires'' \<mapsto> expires info,
                   ''Last-Modified'' \<mapsto> lastModified info,
                   ''Cache-Control'' \<mapsto> cacheControl info)
            in case customHeaders info of None \<Rightarrow> built | Some custom \<Rightarrow> built ++ custom),
         body = Some payload\<rparr>"
  using assms
  by (auto simp add: handler_def tryBlock_def afterSetup_def Object_keys_def processedResponse_def
      StatusCodes_OK_def Let_def)

text \<open>
  A request from a load balancer whose custom headers replace the Cache-Control of the
  request.
\<close>

theorem processed_response_witness:
  "\<exists>response.
     handler example_env (resolves big_info) (resolves ''aGVsbG8='') (getObject_rejects (JObj []))
       alb_event = Inr response \<and>
     statusCode response = JNum 200 \<and> isBase64Encoded response \<and>
     body response = Some ''aGVsbG8='' \<and>
     headers response ''Content-Type'' = Some (JStr ''image/png'') \<and>
     headers response ''Expires'' = Some (JStr ''Thu, 01 Jan 2026 00:00:00 GMT'') \<and>
     headers response ''Last-Modified'' = Some (JStr ''Wed, 01 Jan 2025 00:00:00 GMT'') \<and>
     headers response ''Cache-Control'' = Some (JStr ''no-store'') \<and>
     headers response ''Access-Control-Allow-Credentials'' = None \<and>
     headers response ''Access-Control-Allow-Origin'' = Some (JStr ''*'')"
  using processed_response [where imageRequest_setup = "resolves big_info" and event = alb_event
      and info = big_info and env = example_env
      and imageHandler_process = "resolves ''aGVsbG8=''" and payload = "''aGVsbG8=''"
      and ?s3_getObject = "getObject_rejects (JObj [])"]
  by (simp add: resolves_def big_info_def example_env_def alb_event_def isAlb_of_def
      hasOwnProperty_def getResponseHeaders_def string_or_undefined_def)

section \<open>The redirect for an image that is too large\<close>



section \<open>The default fallback image\<close>

text \<open>
  Claim C5, as stated: the status code of the fallback response is the status of the error
  if present, else 500. It fails for an error whose status is present and falsy: with the
  status 0 the response has status code 500.
\<close>

theorem fallback_status_counterexample:
  "hasOwnProperty zero_status_error ''status'' \<and>
   property zero_status_error ''status'' = JNum 0 \<and>
   handler fallback_env (rejects (JObj zero_status_error)) (rejects (JObj []))
     (getObject_resolves fallback_object) alb_event =
   Inr \<lparr>statusCode = JNum 500,
        isBase64Encoded = True,
        headers =
          [''Access-Control-Allow-Methods'' \<mapsto> JStr ''GET'',
           ''Access-Control-Allow-Headers'' \<mapsto> JStr ''Content-Type, Authorization'',
           ''Content-Type'' \<mapsto> JStr ''image/png'',
           ''Last-Modified'' \<mapsto> JStr ''Wed, 01 Jan 2025 00:00:00 GMT'',
           ''Cache-Control'' \<mapsto> JStr ''max-age=31536000,public''],
        body = Some ''TWFu''\<rparr>"
  by (simp add: handler_def tryBlock_def catchBlock_def innerTryBlock_def
      fallbackImageResponse_def rejects_def getObject_resolves_def fallback_env_def
      zero_status_error_def property_def isNullOrWhiteSpace_def is_white_space_def
      fallback_object_def alb_event_def isAlb_of_def hasOwnProperty_def getResponseHeaders_def
      base64_char_def base64_alphabet_def StatusCodes_INTERNAL_SERVER_ERROR_def)

text \<open>
  Claim C5, amended. When the error thrown in the \<^verbatim>\<open>try\<close> block does not have the code
  TooLargeImageException, ENABLE_DEFAULT_FALLBACK_IMAGE is Yes, the bucket and the key of
  the fallback image are neither empty nor white space, and the fetch resolves, the handler
  returns the status of the error if it is truthy, else 500; base64 encoded; the body is
  the fetched bytes in base64; the headers are those of the header builder for a success,
  overlaid with Content-Type and Last-Modified of the fetched object and Cache-Control
  \<^verbatim>\<open>max-age=31536000,public\<close>.
\<close>

theorem fallback_image_response:
  assumes "tryBlock env imageRequest_setup imageHandler_process (isAlb_of event) event =
             (info, Inl (JObj error))"
    and "property error ''code'' \<noteq> JStr ''TooLargeImageException''"
    and "env ''ENABLE_DEFAULT_FALLBACK_IMAGE'' = Some ''Yes''"
    and "\<not> isNullOrWhiteSpace (env ''DEFAULT_FALLBACK_IMAGE_BUCKET'')"
    and "\<not> isNullOrWhiteSpace (env ''DEFAULT_FALLBACK_IMAGE_KEY'')"
    and "s3_getObject (env ''DEFAULT_FALLBACK_IMAGE_BUCKET'') (env ''DEFAULT_FALLBACK_IMAGE_KEY'') =
           Inr fetched"
  shows "handler env imageRequest_setup imageHandler_process s3_getObject event =
    Inr \<lparr>statusCode =
           (if truthy (property error ''status'') then property error ''status'' else JNum 500),
         isBase64Encoded = True,
         headers = (getResponseHeaders env False (isAlb_of event))
           (''Content-Type'' \<mapsto> ContentType fetched,
            ''Last-Modified'' \<mapsto> LastModified fetched,
            ''Cache-Control'' \<mapsto> JStr ''max-age=31536000,public''),
         body = Some (toString_base64 (Body fetched))\<rparr>"
  using assms
  by (simp add: handler_def catchBlock_def innerTryBlock_def fallbackImageResponse_object Let_def)

theorem fallback_image_response_witness:
  "handler fallback_env (rejects (JObj bad_request_error)) (rejects (JObj []))
     (getObject_resolves fallback_object) alb_event =
   Inr \<lparr>statusCode = JNum 400,
        isBase64Encoded = True,
        headers =
          [''Access-Control-Allow-Methods'' \<mapsto> JStr ''GET'',
           ''Access-Control-Allow-Headers'' \<mapsto> JStr ''Content-Type, Authorization'',
           ''Content-Type'' \<mapsto> JStr ''image/png'',
           ''Last-Modified'' \<mapsto> JStr ''Wed, 01 Jan 2025 00:00:00 GMT'',
           ''Cache-Control'' \<mapsto> JStr ''max-age=31536000,public''],
        body = Some ''TWFu''\<rparr>"
  using fallback_image_response [where imageRequest_setup = "rejects (JObj bad_request_error)"
      and event = alb_event and env = fallback_env and error = bad_request_error
      and info = None and fetched = fallback_object
      and imageHandler_process = "rejects (JObj [])"
      and ?s3_getObject = "getObject_resolves fallback_object"]
  by (simp add: tryBlock_def rejects_def getObject_resolves_def fallback_env_def
      bad_request_error_def property_def isNullOrWhiteSpace_def is_white_space_def
      fallback_object_def alb_event_def isAlb_of_def hasOwnProperty_def getResponseHeaders_def
      base64_char_def base64_alphabet_def)

section \<open>The structured error\<close>

text \<open>
  Claim C6, as stated: the status code is the status of the error if present, else 500, and
  the body is JSON with status, code and message. It fails twice. An error whose status is
  present and falsy (0) gets the status code 500. An error that has a status and nothing
  else is serialised as it is, and the body has neither code nor message.
\<close>

theorem structured_error_counterexample:
  \<open>hasOwnProperty zero_status_error ''status'' \<and>
   property zero_status_error ''status'' = JNum 0 \<and>
   map_sum id statusCode
     (handler example_env (rejects (JObj zero_status_error)) (rejects (JObj []))
        (getObject_rejects (JObj [])) api_event) = Inr (JNum 500) \<and>
   property status_only_error ''code'' \<noteq> JStr ''TooLargeImageException'' \<and>
   map_sum id body
     (handler example_env (rejects (JObj status_only_error)) (rejects (JObj []))
        (getObject_rejects (JObj [])) api_event) = Inr (Some ''{"status":404}'')\<close>
  by (simp add: handler_def tryBlock_def catchBlock_def errorResponse_def
      rejects_def example_env_def zero_status_error_def status_only_error_def property_def
      hasOwnProperty_def StatusCodes_INTERNAL_SERVER_ERROR_def
      JSON_stringify_def QuoteJSONString_def escape_char_def
      Number_toString_def decimal_digit_def)

text \<open>
  Claim C6, amended. When the error object thrown in the \<^verbatim>\<open>try\<close> block does not have the
  code TooLargeImageException, and the fallback image is not enabled, or its bucket or key
  is missing, empty or white space, or its fetch rejects, then:

  \<^item> If the status of the error is falsy (absent, or 0 and the like), the handler returns
    status 500, not base64 encoded, the headers of the header builder for an error
    (Content-Type application/json), and the fixed body with the message "Internal error.
    Please contact the system administrator.", the code InternalError and the status 500.
  \<^item> If the status is truthy and \<^verbatim>\<open>JSON.stringify(error)\<close> returns, the handler returns
    that status, not base64 encoded, the same headers, and the text of
    \<^verbatim>\<open>JSON.stringify(error)\<close> as body: an object with a member for each property of the
    error that is serialised, the status among them, and code and message only when the
    error has them.
  \<^item> If the status is truthy and \<^verbatim>\<open>JSON.stringify(error)\<close> throws (the error holds a
    BigInt or a reference cycle), the handler rejects with that \<^verbatim>\<open>TypeError\<close>.

  A rejected fetch of the fallback image does not leave the handler.
\<close>

theorem structured_error_response:
  assumes "tryBlock env imageRequest_setup imageHandler_process (isAlb_of event) event =
             (info, Inl (JObj error))"
    and "property error ''code'' \<noteq> JStr ''TooLargeImageException''"
    and "env ''ENABLE_DEFAULT_FALLBACK_IMAGE'' \<noteq> Some ''Yes'' \<or>
         isNullOrWhiteSpace (env ''DEFAULT_FALLBACK_IMAGE_BUCKET'') \<or>
         isNullOrWhiteSpace (env ''DEFAULT_FALLBACK_IMAGE_KEY'') \<or>
         (\<exists>fetchError.
            s3_getObject (env ''DEFAULT_FALLBACK_IMAGE_BUCKET'') (env ''DEFAULT_FALLBACK_IMAGE_KEY'') =
              Inl fetchError)"
  shows \<open>(\<not> truthy (property error ''status'') \<longrightarrow>
      handler env imageRequest_setup imageHandler_process s3_getObject event =
        Inr \<lparr>statusCode = JNum 500,
             isBase64Encoded = False,
             headers = getResponseHeaders env True (isAlb_of event),
             body = Some ''{"message":"Internal error. Please contact the system administrator.","code":"InternalError","status":500}''\<rparr>) \<and>
    (truthy (property error ''status'') \<and> serialisable (JObj error) \<longrightarrow>
      (\<exists>members.
         JSON_members error = Inr members \<and>
         JSON_stringify (JObj error) = Inr (Some (''{'' @ join '','' members @ ''}'')) \<and>
         handler env imageRequest_setup imageHandler_process s3_getObject event =
           Inr \<lparr>statusCode = property error ''status'',
                isBase64Encoded = False,
                headers = getResponseHeaders env True (isAlb_of event),
                body = Some (''{'' @ join '','' members @ ''}'')\<rparr> \<and>
         (\<exists>s. QuoteJSONString ''status'' @ '':'' @ s \<in> set members) \<and>
         (\<forall>k s. JSON_property (property error k) = Inr (Some s) \<longrightarrow>
            QuoteJSONString k @ '':'' @ s \<in> set members))) \<and>
    (truthy (property error ''status'') \<and> \<not> serialisable (JObj error) \<longrightarrow>
      JSON_stringify (JObj error) = Inl TypeError \<and>
      handler env imageRequest_setup imageHandler_process s3_getObject event = Inl TypeError) \<and>
    getResponseHeaders env True (isAlb_of event) ''Content-Type'' = Some (JStr ''application/json'')\<close>
proof -
  have h: "handler env imageRequest_setup imageHandler_process s3_getObject event =
          errorResponse env (isAlb_of event) (JObj error)"
    using handler_caught [OF assms(1)]
      catchBlock_structured [where s3_getObject = s3_getObject and env = env, OF assms(2,3)]
    by simp
  have falsy: \<open>\<not> truthy (property error ''status'') \<longrightarrow>
      handler env imageRequest_setup imageHandler_process s3_getObject event =
        Inr \<lparr>statusCode = JNum 500,
             isBase64Encoded = False,
             headers = getResponseHeaders env True (isAlb_of event),
             body = Some ''{"message":"Internal error. Please contact the system administrator.","code":"InternalError","status":500}''\<rparr>\<close>
    using h by (simp add: errorResponse_falsy_status)
  have returned: "truthy (property error ''status'') \<and> serialisable (JObj error) \<longrightarrow>
      (\<exists>members.
         JSON_members error = Inr members \<and>
         JSON_stringify (JObj error) = Inr (Some (''{'' @ join '','' members @ ''}'')) \<and>
         handler env imageRequest_setup imageHandler_process s3_getObject event =
           Inr \<lparr>statusCode = property error ''status'',
                isBase64Encoded = False,
                headers = getResponseHeaders env True (isAlb_of event),
                body = Some (''{'' @ join '','' members @ ''}'')\<rparr> \<and>
         (\<exists>s. QuoteJSONString ''status'' @ '':'' @ s \<in> set members) \<and>
         (\<forall>k s. JSON_property (property error k) = Inr (Some s) \<longrightarrow>
            QuoteJSONString k @ '':'' @ s \<in> set members))"
  proof
    assume a: "truthy (property error ''status'') \<and> serialisable (JObj error)"
    then obtain members where m: "JSON_members error = Inr members"
      using JSON_returns_iff(2) [of error] by auto
    then have s: "JSON_stringify (JObj error) = Inr (Some (''{'' @ join '','' members @ ''}''))"
      by (simp add: JSON_stringify_def)
    have r: "handler env imageRequest_setup imageHandler_process s3_getObject event =
           Inr \<lparr>statusCode = property error ''status'',
                isBase64Encoded = False,
                headers = getResponseHeaders env True (isAlb_of event),
                body = Some (''{'' @ join '','' members @ ''}'')\<rparr>"
      using h a s by (simp add: errorResponse_truthy_status)
    have st: "\<exists>s. QuoteJSONString ''status'' @ '':'' @ s \<in> set members"
      using JSON_members_status [OF m] a by blast
    have all: "\<forall>k s. JSON_property (property error k) = Inr (Some s) \<longrightarrow>
            QuoteJSONString k @ '':'' @ s \<in> set members"
      using JSON_members_property [OF m] by blast
    from m s r st all show "\<exists>members.
         JSON_members error = Inr members \<and>
         JSON_stringify (JObj error) = Inr (Some (''{'' @ join '','' members @ ''}'')) \<and>
         handler env imageRequest_setup imageHandler_process s3_getObject event =
           Inr \<lparr>statusCode = property error ''status'',
                isBase64Encoded = False,
                headers = getResponseHeaders env True (isAlb_of event),
                body = Some (''{'' @ join '','' members @ ''}'')\<rparr> \<and>
         (\<exists>s. QuoteJSONString ''status'' @ '':'' @ s \<in> set members) \<and>
         (\<forall>k s. JSON_property (property error k) = Inr (Some s) \<longrightarrow>
            QuoteJSONString k @ '':'' @ s \<in> set members)"
      by blast
  qed
  have thrown: "truthy (property error ''status'') \<and> \<not> serialisable (JObj error) \<longrightarrow>
      JSON_stringify (JObj error) = Inl TypeError \<and>
      handler env imageRequest_setup imageHandler_process s3_getObject event = Inl TypeError"
    using h by (auto simp add: errorResponse_truthy_status
        JSON_stringify_not_serialisable [of "JObj error"])
  have content_type: "getResponseHeaders env True (isAlb_of event) ''Content-Type'' =
          Some (JStr ''application/json'')"
    by (simp add: getResponseHeaders_def Let_def)
  show ?thesis
    by (intro conjI falsy returned thrown content_type)
qed

text \<open>
  The example of the spec (\<^verbatim>\<open>setup\<close> throws status 400 with the fallback disabled); a
  fetch of the fallback image that rejects after \<^verbatim>\<open>process\<close> threw an error without
  status; and an error with status 400 that lies on a reference cycle.
\<close>

theorem structured_error_response_witness:
  \<open>handler example_env (rejects (JObj bad_request_error)) (rejects (JObj []))
     (getObject_rejects (JObj [])) api_event =
   Inr \<lparr>statusCode = JNum 400,
        isBase64Encoded = False,
        headers =
          [''Access-Control-Allow-Methods'' \<mapsto> JStr ''GET'',
           ''Access-Control-Allow-Headers'' \<mapsto> JStr ''Content-Type, Authorization'',
           ''Access-Control-Allow-Credentials'' \<mapsto> JBool True,
           ''Access-Control-Allow-Origin'' \<mapsto> JStr ''*'',
           ''Content-Type'' \<mapsto> JStr ''application/json''],
        body = Some ''{"status":400,"code":"BadRequest","message":"invalid edits"}''\<rparr> \<and>
   handler fallback_env (resolves big_info) (rejects (JObj [])) (getObject_rejects (JObj []))
     alb_event =
   Inr \<lparr>statusCode = JNum 500,
        isBase64Encoded = False,
        headers =
          [''Access-Control-Allow-Methods'' \<mapsto> JStr ''GET'',
           ''Access-Control-Allow-Headers'' \<mapsto> JStr ''Content-Type, Authorization'',
           ''Content-Type'' \<mapsto> JStr ''application/json''],
        body = Some ''{"message":"Internal error. Please contact the system administrator.","code":"InternalError","status":500}''\<rparr> \<and>
   handler example_env (rejects (JObj cyclic_error)) (rejects (JObj []))
     (getObject_rejects (JObj [])) api_event = Inl TypeError\<close>
proof (intro conjI)
  have thrown: "tryBlock example_env (rejects (JObj bad_request_error)) (rejects (JObj []))
      (isAlb_of api_event) api_event = (None, Inl (JObj bad_request_error))"
    by (simp add: tryBlock_def rejects_def)
  have code: "property bad_request_error ''code'' \<noteq> JStr ''TooLargeImageException''"
    by (simp add: bad_request_error_def property_def)
  have disabled: "example_env ''ENABLE_DEFAULT_FALLBACK_IMAGE'' \<noteq> Some ''Yes'' \<or>
      isNullOrWhiteSpace (example_env ''DEFAULT_FALLBACK_IMAGE_BUCKET'') \<or>
      isNullOrWhiteSpace (example_env ''DEFAULT_FALLBACK_IMAGE_KEY'') \<or>
      (\<exists>fetchError. getObject_rejects (JObj []) (example_env ''DEFAULT_FALLBACK_IMAGE_BUCKET'')
         (example_env ''DEFAULT_FALLBACK_IMAGE_KEY'') = Inl fetchError)"
    by (simp add: example_env_def)
  have status: "truthy (property bad_request_error ''status'') \<and>
      serialisable (JObj bad_request_error)"
    by (simp add: bad_request_error_def property_def)
  have members: \<open>\<And>members. JSON_members bad_request_error = Inr members \<Longrightarrow>
      ''{'' @ join '','' members @ ''}'' =
      ''{"status":400,"code":"BadRequest","message":"invalid edits"}''\<close>
    by (auto simp add: bad_request_error_def QuoteJSONString_def escape_char_def
        Number_toString_def decimal_digit_def)
  show \<open>handler example_env (rejects (JObj bad_request_error)) (rejects (JObj []))
     (getObject_rejects (JObj [])) api_event =
   Inr \<lparr>statusCode = JNum 400,
        isBase64Encoded = False,
        headers =
          [''Access-Control-Allow-Methods'' \<mapsto> JStr ''GET'',
           ''Access-Control-Allow-Headers'' \<mapsto> JStr ''Content-Type, Authorization'',
           ''Access-Control-Allow-Credentials'' \<mapsto> JBool True,
           ''Access-Control-Allow-Origin'' \<mapsto> JStr ''*'',
           ''Content-Type'' \<mapsto> JStr ''application/json''],
        body = Some ''{"status":400,"code":"BadRequest","message":"invalid edits"}''\<rparr>\<close>
    using structured_error_response [where s3_getObject = "getObject_rejects (JObj [])"
        and env = example_env, OF thrown code disabled] status members
    by (auto simp add: bad_request_error_def property_def api_event_def isAlb_of_def
        hasOwnProperty_def getResponseHeaders_def example_env_def string_or_undefined_def)
next
  have thrown: "tryBlock fallback_env (resolves big_info) (rejects (JObj []))
      (isAlb_of alb_event) alb_event = (Some big_info, Inl (JObj []))"
    by (simp add: tryBlock_def afterSetup_def Object_keys_def resolves_def rejects_def
        big_info_def)
  have code: "property [] ''code'' \<noteq> JStr ''TooLargeImageException''"
    by (simp add: property_def)
  have rejected: "fallback_env ''ENABLE_DEFAULT_FALLBACK_IMAGE'' \<noteq> Some ''Yes'' \<or>
      isNullOrWhiteSpace (fallback_env ''DEFAULT_FALLBACK_IMAGE_BUCKET'') \<or>
      isNullOrWhiteSpace (fallback_env ''DEFAULT_FALLBACK_IMAGE_KEY'') \<or>
      (\<exists>fetchError. getObject_rejects (JObj []) (fallback_env ''DEFAULT_FALLBACK_IMAGE_BUCKET'')
         (fallback_env ''DEFAULT_FALLBACK_IMAGE_KEY'') = Inl fetchError)"
    by (simp add: getObject_rejects_def)
  show \<open>handler fallback_env (resolves big_info) (rejects (JObj [])) (getObject_rejects (JObj []))
     alb_event =
   Inr \<lparr>statusCode = JNum 500,
        isBase64Encoded = False,
        headers =
          [''Access-Control-Allow-Methods'' \<mapsto> JStr ''GET'',
           ''Access-Control-Allow-Headers'' \<mapsto> JStr ''Content-Type, Authorization'',
           ''Content-Type'' \<mapsto> JStr ''application/json''],
        body = Some ''{"message":"Internal error. Please contact the system administrator.","code":"InternalError","status":500}''\<rparr>\<close>
    using structured_error_response [where s3_getObject = "getObject_rejects (JObj [])"
        and env = fallback_env, OF thrown code rejected]
    by (simp add: property_def alb_event_def isAlb_of_def hasOwnProperty_def
        getResponseHeaders_def fallback_env_def)
next
  have thrown: "tryBlock example_env (rejects (JObj cyclic_error)) (rejects (JObj []))
      (isAlb_of api_event) api_event = (None, Inl (JObj cyclic_error))"
    by (simp add: tryBlock_def rejects_def)
  have code: "property cyclic_error ''code'' \<noteq> JStr ''TooLargeImageException''"
    by (simp add: cyclic_error_def property_def)
  have disabled: "example_env ''ENABLE_DEFAULT_FALLBACK_IMAGE'' \<noteq> Some ''Yes'' \<or>
      isNullOrWhiteSpace (example_env ''DEFAULT_FALLBACK_IMAGE_BUCKET'') \<or>
      isNullOrWhiteSpace (example_env ''DEFAULT_FALLBACK_IMAGE_KEY'') \<or>
      (\<exists>fetchError. getObject_rejects (JObj []) (example_env ''DEFAULT_FALLBACK_IMAGE_BUCKET'')
         (example_env ''DEFAULT_FALLBACK_IMAGE_KEY'') = Inl fetchError)"
    by (simp add: example_env_def)
  have status: "truthy (property cyclic_error ''status'') \<and> \<not> serialisable (JObj cyclic_error)"
    by (simp add: cyclic_error_def property_def)
  show "handler example_env (rejects (JObj cyclic_error)) (rejects (JObj []))
     (getObject_rejects (JObj [])) api_event = Inl TypeError"
    using structured_error_response [where s3_getObject = "getObject_rejects (JObj [])"
        and env = example_env, OF thrown code disabled] status by blast
qed

section \<open>The redirect after a failed setup\<close>

text \<open>
  Claim C7, as stated: when \<^verbatim>\<open>setup\<close> fails with the code TooLargeImageException, the
  Location of the redirect is HIGHRES_CDN_URL followed by a slash and an empty path. It
  fails: \<^verbatim>\<open>imageRequestInfo\<close> is the object \<^verbatim>\<open>{}\<close>, its key is \<^verbatim>\<open>undefined\<close>, and the
  template literal writes the text "undefined" after the slash.
\<close>

theorem setup_too_large_counterexample:
  "handler example_env (rejects (JObj too_large_error)) (rejects (JObj []))
     (getObject_rejects (JObj [])) api_event =
   Inr \<lparr>statusCode = JNum 301,
        isBase64Encoded = False,
        headers = [''Location'' \<mapsto> JStr ''https://cdn.example.com/undefined''],
        body = None\<rparr> \<and>
   ''https://cdn.example.com/undefined'' \<noteq> ''https://cdn.example.com/''"
  by (simp add: handler_def tryBlock_def catchBlock_def rejects_def too_large_error_def
      property_def getRedirectResponse_def StatusCodes_MOVED_def template_def example_env_def)

text \<open>
  Claim C7, amended. When \<^verbatim>\<open>setup\<close> fails, the catch block runs with the object
  \<^verbatim>\<open>{}\<close> as request, which has no key and no edits; if the error has the code
  TooLargeImageException, the handler does not crash and returns the redirect with status
  301, a null body and the single header Location, which is HIGHRES_CDN_URL followed by
  \<^verbatim>\<open>/undefined\<close>.
\<close>

theorem setup_too_large_redirect:
  assumes "imageRequest_setup event = Inl (JObj error)"
    and "property error ''code'' = JStr ''TooLargeImageException''"
  shows "tryBlock env imageRequest_setup imageHandler_process (isAlb_of event) event =
           (None, Inl (JObj error)) \<and>
    handler env imageRequest_setup imageHandler_process s3_getObject event =
    Inr \<lparr>statusCode = JNum 301,
         isBase64Encoded = False,
         headers = [''Location'' \<mapsto> JStr (template (env ''HIGHRES_CDN_URL'') @ ''/undefined'')],
         body = None\<rparr>"
  using assms
  by (simp add: handler_def tryBlock_def catchBlock_def getRedirectResponse_def
      StatusCodes_MOVED_def template_None)

theorem setup_too_large_redirect_witness:
  "handler fallback_env (rejects (JObj too_large_error)) (resolves ''aGVsbG8='')
     (getObject_resolves fallback_object) alb_event =
   Inr \<lparr>statusCode = JNum 301,
        isBase64Encoded = False,
        headers = [''Location'' \<mapsto> JStr ''https://cdn.example.com/undefined''],
        body = None\<rparr>"
  using setup_too_large_redirect [where imageRequest_setup = "rejects (JObj too_large_error)"
      and event = alb_event and env = fallback_env and error = too_large_error
      and imageHandler_process = "resolves ''aGVsbG8=''"
      and ?s3_getObject = "getObject_resolves fallback_object"]
  by (simp add: rejects_def fallback_env_def too_large_error_def property_def template_def)

section \<open>The header builder\<close>

text \<open>
  Claim C8. For a load balancer origin (\<open>isAlb\<close> true) the headers built by
  \<^verbatim>\<open>getResponseHeaders\<close> have no Access-Control-Allow-Credentials; otherwise the header is
  there with the value \<^verbatim>\<open>true\<close>. Both hold for an error and for a success.
\<close>

theorem getResponseHeaders_credentials:
  "getResponseHeaders env isError True ''Access-Control-Allow-Credentials'' = None \<and>
   getResponseHeaders env isError False ''Access-Control-Allow-Credentials'' = Some (JBool True)"
  by (simp add: getResponseHeaders_def Let_def)

section \<open>The origin of the event\<close>

text \<open>
  Claim C9. The event counts as coming from a load balancer exactly when it has a
  \<^verbatim>\<open>requestContext\<close> with an own property \<^verbatim>\<open>elb\<close>, whatever the value of that property.
  The handler reads nothing else of the event: two invocations with the same flag and the
  same outcome of \<^verbatim>\<open>setup\<close> end the same. The flag is the one given to every call of
  the header builder. So every response of the handler is a redirect, which carries the
  Location only and calls no builder, or has one of these headers:

  \<^item> after \<^verbatim>\<open>process\<close> resolved for the request of \<^verbatim>\<open>setup\<close>, the headers of the builder
    for a success and this flag, overlaid with the four header values and the custom headers
    of that request;
  \<^item> after the fetch of the fallback image resolved, the headers of the builder for a success
    and this flag, overlaid with the values of the fetched object;
  \<^item> the headers of the builder for an error and this flag.
\<close>

theorem load_balancer_flag:
  "(isAlb_of event \<longleftrightarrow>
      (\<exists>ctx. requestContext event = Some ctx \<and> ''elb'' \<in> fst ` set ctx)) \<and>
   isAlb_of (event\<lparr>requestContext := Some ((''elb'', v) # ctx)\<rparr>) \<and>
   (isAlb_of event = isAlb_of event' \<and> imageRequest_setup event = setup' event' \<longrightarrow>
      handler env imageRequest_setup imageHandler_process s3_getObject event =
      handler env setup' imageHandler_process s3_getObject event') \<and>
   (\<forall>response.
      handler env imageRequest_setup imageHandler_process s3_getObject event = Inr response \<longrightarrow>
      (\<exists>info. response = getRedirectResponse env info) \<or>
      (\<exists>info payload.
         imageRequest_setup event = Inr info \<and> imageHandler_process info = Inr payload \<and>
         headers response =
           (let built = (getResponseHeaders env False (isAlb_of event))
                  (''Content-Type'' \<mapsto> contentType info,
                   ''Expires'' \<mapsto> expires info,
                   ''Last-Modified'' \<mapsto> lastModified info,
                   ''Cache-Control'' \<mapsto> cacheControl info)
            in case customHeaders info of None \<Rightarrow> built | Some custom \<Rightarrow> built ++ custom)) \<or>
      (\<exists>fetched.
         s3_getObject (env ''DEFAULT_FALLBACK_IMAGE_BUCKET'') (env ''DEFAULT_FALLBACK_IMAGE_KEY'') =
           Inr fetched \<and>
         headers response = (getResponseHeaders env False (isAlb_of event))
            (''Content-Type'' \<mapsto> ContentType fetched,
             ''Last-Modified'' \<mapsto> LastModified fetched,
             ''Cache-Control'' \<mapsto> JStr ''max-age=31536000,public'')) \<or>
      headers response = getResponseHeaders env True (isAlb_of event))"
proof (intro conjI allI impI)
  show "isAlb_of event \<longleftrightarrow>
      (\<exists>ctx. requestContext event = Some ctx \<and> ''elb'' \<in> fst ` set ctx)"
    by (rule isAlb_of_iff)
  show "isAlb_of (event\<lparr>requestContext := Some ((''elb'', v) # ctx)\<rparr>)"
    by (simp add: isAlb_of_def hasOwnProperty_def)
  show "handler env imageRequest_setup imageHandler_process s3_getObject event =
      handler env setup' imageHandler_process s3_getObject event'"
    if "isAlb_of event = isAlb_of event' \<and> imageRequest_setup event = setup' event'"
    using that handler_depends_on_flag by blast
  fix response
  assume returned:
    "handler env imageRequest_setup imageHandler_process s3_getObject event = Inr response"
  show "(\<exists>info. response = getRedirectResponse env info) \<or>
      (\<exists>info payload.
         imageRequest_setup event = Inr info \<and> imageHandler_process info = Inr payload \<and>
         headers response =
           (let built = (getResponseHeaders env False (isAlb_of event))
                  (''Content-Type'' \<mapsto> contentType info,
                   ''Expires'' \<mapsto> expires info,
                   ''Last-Modified'' \<mapsto> lastModified info,
                   ''Cache-Control'' \<mapsto> cacheControl info)
            in case customHeaders info of None \<Rightarrow> built | Some custom \<Rightarrow> built ++ custom)) \<or>
      (\<exists>fetched.
         s3_getObject (env ''DEFAULT_FALLBACK_IMAGE_BUCKET'') (env ''DEFAULT_FALLBACK_IMAGE_KEY'') =
           Inr fetched \<and>
         headers response = (getResponseHeaders env False (isAlb_of event))
            (''Content-Type'' \<mapsto> ContentType fetched,
             ''Last-Modified'' \<mapsto> LastModified fetched,
             ''Cache-Control'' \<mapsto> JStr ''max-age=31536000,public'')) \<or>
      headers response = getResponseHeaders env True (isAlb_of event)"
  proof (cases "tryBlock env imageRequest_setup imageHandler_process (isAlb_of event) event")
    case (Pair info outcome)
    show ?thesis
    proof (cases outcome)
      case (Inl error)
      with Pair returned
      have c: "catchBlock env s3_getObject (isAlb_of event) info error = Inr response"
        by (simp add: handler_def)
      from catchBlock_cases [OF c] show ?thesis
      proof (elim disjE exE conjE)
        assume "response = getRedirectResponse env info"
        then show ?thesis by blast
      next
        fix fetched
        assume "s3_getObject (env ''DEFAULT_FALLBACK_IMAGE_BUCKET'')
            (env ''DEFAULT_FALLBACK_IMAGE_KEY'') = Inr fetched"
          and "fallbackImageResponse env (isAlb_of event) error fetched = Inr response"
        with headers_fallbackImageResponse show ?thesis by blast
      next
        assume "errorResponse env (isAlb_of event) error = Inr response"
        with headers_errorResponse show ?thesis by blast
      qed
    next
      case (Inr returned_response)
      with Pair returned have same: "returned_response = response"
        by (simp add: handler_def)
      from tryBlock_Inr_cases [OF Pair [unfolded Inr same]]
      obtain i where i: "imageRequest_setup event = Inr i"
        and branch: "response = getRedirectResponse env (Some i) \<or>
          (\<exists>payload. imageHandler_process i = Inr payload \<and>
             response = processedResponse env (isAlb_of event) i payload)"
        by blast
      from branch show ?thesis
      proof
        assume "response = getRedirectResponse env (Some i)"
        then show ?thesis by blast
      next
        assume "\<exists>payload. imageHandler_process i = Inr payload \<and>
             response = processedResponse env (isAlb_of event) i payload"
        then obtain payload where p: "imageHandler_process i = Inr payload"
          and r: "response = processedResponse env (isAlb_of event) i payload"
          by blast
        from r have "headers response =
           (let built = (getResponseHeaders env False (isAlb_of event))
                  (''Content-Type'' \<mapsto> contentType i,
                   ''Expires'' \<mapsto> expires i,
                   ''Last-Modified'' \<mapsto> lastModified i,
                   ''Cache-Control'' \<mapsto> cacheControl i)
            in case customHeaders i of None \<Rightarrow> built | Some custom \<Rightarrow> built ++ custom)"
          by (simp add: headers_processedResponse)
        with i p show ?thesis by blast
      qed
    qed
  qed
qed

text \<open>
  An event with \<^verbatim>\<open>elb\<close> in its context, one without, one whose \<^verbatim>\<open>elb\<close> is \<^verbatim>\<open>null\<close>,
  two events that differ in the path only, and the headers of a processed image without
  custom headers for a load balancer: no Access-Control-Allow-Credentials.
\<close>

theorem load_balancer_flag_witness:
  "isAlb_of alb_event \<and> \<not> isAlb_of api_event \<and>
   isAlb_of (api_event\<lparr>requestContext := Some [(''elb'', JsonNull)]\<rparr>) \<and>
   handler example_env (resolves plain_info) (resolves ''aGVsbG8='') (getObject_rejects (JObj []))
     alb_event =
   handler example_env (resolves plain_info) (resolves ''aGVsbG8='') (getObject_rejects (JObj []))
     (alb_event\<lparr>path := None\<rparr>) \<and>
   map_sum id headers
     (handler example_env (resolves plain_info) (resolves ''aGVsbG8='')
        (getObject_rejects (JObj [])) alb_event) =
   Inr [''Access-Control-Allow-Methods'' \<mapsto> JStr ''GET'',
        ''Access-Control-Allow-Headers'' \<mapsto> JStr ''Content-Type, Authorization'',
        ''Access-Control-Allow-Origin'' \<mapsto> JStr ''*'',
        ''Content-Type'' \<mapsto> JStr ''image/png'',
        ''Expires'' \<mapsto> JUndefined,
        ''Last-Modified'' \<mapsto> JUndefined,
        ''Cache-Control'' \<mapsto> JStr ''max-age=60'']"
proof -
  have same: "isAlb_of alb_event = isAlb_of (alb_event\<lparr>path := None\<rparr>) \<and>
      resolves plain_info alb_event = resolves plain_info (alb_event\<lparr>path := None\<rparr>)"
    by (simp add: isAlb_of_def resolves_def)
  have ctx: "\<exists>ctx. requestContext alb_event = Some ctx \<and> ''elb'' \<in> fst ` set ctx"
    by (simp add: alb_event_def)
  have no_ctx: "\<not> (\<exists>ctx. requestContext api_event = Some ctx \<and> ''elb'' \<in> fst ` set ctx)"
    by (simp add: api_event_def)
  note alb = load_balancer_flag [where event = alb_event and event' = "alb_event\<lparr>path := None\<rparr>"
        and imageRequest_setup = "resolves plain_info" and setup' = "resolves plain_info"
        and env = example_env and imageHandler_process = "resolves ''aGVsbG8=''"
        and ?s3_getObject = "getObject_rejects (JObj [])"]
  note api = load_balancer_flag [where event = api_event and event' = api_event
        and imageRequest_setup = "resolves plain_info" and setup' = "resolves plain_info"
        and env = example_env and imageHandler_process = "resolves ''aGVsbG8=''"
        and ?s3_getObject = "getObject_rejects (JObj [])" and v = JsonNull and ctx = "[]"]
  have flags: "isAlb_of alb_event \<and> \<not> isAlb_of api_event \<and>
      isAlb_of (api_event\<lparr>requestContext := Some [(''elb'', JsonNull)]\<rparr>) \<and>
      handler example_env (resolves plain_info) (resolves ''aGVsbG8='')
        (getObject_rejects (JObj [])) alb_event =
      handler example_env (resolves plain_info) (resolves ''aGVsbG8='')
        (getObject_rejects (JObj [])) (alb_event\<lparr>path := None\<rparr>)"
    using same ctx no_ctx alb api by blast
  have response: "handler example_env (resolves plain_info) (resolves ''aGVsbG8='')
        (getObject_rejects (JObj [])) alb_event =
      Inr (processedResponse example_env (isAlb_of alb_event) plain_info ''aGVsbG8='')"
    by (simp add: handler_def tryBlock_def afterSetup_def Object_keys_def resolves_def
        plain_info_def)
  have "map_sum id headers
     (handler example_env (resolves plain_info) (resolves ''aGVsbG8='')
        (getObject_rejects (JObj [])) alb_event) =
   Inr [''Access-Control-Allow-Methods'' \<mapsto> JStr ''GET'',
        ''Access-Control-Allow-Headers'' \<mapsto> JStr ''Content-Type, Authorization'',
        ''Access-Control-Allow-Origin'' \<mapsto> JStr ''*'',
        ''Content-Type'' \<mapsto> JStr ''image/png'',
        ''Expires'' \<mapsto> JUndefined,
        ''Last-Modified'' \<mapsto> JUndefined,
        ''Cache-Control'' \<mapsto> JStr ''max-age=60'']"
    unfolding response
    by (simp add: processedResponse_def plain_info_def getResponseHeaders_def
        example_env_def string_or_undefined_def alb_event_def isAlb_of_def hasOwnProperty_def)
  with flags show ?thesis by blast
qed

section \<open>A falsy status counts as no status\<close>

text \<open>
  Claim C10. The fallback image branch and the structured error branch test the status of
  the error for truthiness. So when the thrown error has a falsy status (0, for one) and
  not the code TooLargeImageException, the handler answers as for an error without status:
  the status code is 500, and the structured error has the fixed body with the code
  InternalError. The result is that of the catch block for the error with its status
  deleted.
\<close>

theorem falsy_status_as_absent:
  assumes "tryBlock env imageRequest_setup imageHandler_process (isAlb_of event) event =
             (info, Inl (JObj error))"
    and "property error ''code'' \<noteq> JStr ''TooLargeImageException''"
    and "\<not> truthy (property error ''status'')"
  shows \<open>(handler env imageRequest_setup imageHandler_process s3_getObject event =
            Inr \<lparr>statusCode = JNum 500,
                 isBase64Encoded = False,
                 headers = getResponseHeaders env True (isAlb_of event),
                 body = Some ''{"message":"Internal error. Please contact the system administrator.","code":"InternalError","status":500}''\<rparr>
          \<or> (\<exists>fetched.
               s3_getObject (env ''DEFAULT_FALLBACK_IMAGE_BUCKET'')
                 (env ''DEFAULT_FALLBACK_IMAGE_KEY'') = Inr fetched \<and>
               handler env imageRequest_setup imageHandler_process s3_getObject event =
                 Inr \<lparr>statusCode = JNum 500,
                      isBase64Encoded = True,
                      headers = (getResponseHeaders env False (isAlb_of event))
                        (''Content-Type'' \<mapsto> ContentType fetched,
                         ''Last-Modified'' \<mapsto> LastModified fetched,
                         ''Cache-Control'' \<mapsto> JStr ''max-age=31536000,public''),
                      body = Some (toString_base64 (Body fetched))\<rparr>)) \<and>
         handler env imageRequest_setup imageHandler_process s3_getObject event =
           catchBlock env s3_getObject (isAlb_of event) info (JObj (without_status error))\<close>
proof -
  have h: "handler env imageRequest_setup imageHandler_process s3_getObject event =
             catchBlock env s3_getObject (isAlb_of event) info (JObj error)"
    using assms(1) by (simp add: handler_def)
  have shape: \<open>catchBlock env s3_getObject (isAlb_of event) info (JObj error) =
            Inr \<lparr>statusCode = JNum 500,
                 isBase64Encoded = False,
                 headers = getResponseHeaders env True (isAlb_of event),
                 body = Some ''{"message":"Internal error. Please contact the system administrator.","code":"InternalError","status":500}''\<rparr>
          \<or> (\<exists>fetched.
               s3_getObject (env ''DEFAULT_FALLBACK_IMAGE_BUCKET'')
                 (env ''DEFAULT_FALLBACK_IMAGE_KEY'') = Inr fetched \<and>
               catchBlock env s3_getObject (isAlb_of event) info (JObj error) =
                 Inr \<lparr>statusCode = JNum 500,
                      isBase64Encoded = True,
                      headers = (getResponseHeaders env False (isAlb_of event))
                        (''Content-Type'' \<mapsto> ContentType fetched,
                         ''Last-Modified'' \<mapsto> LastModified fetched,
                         ''Cache-Control'' \<mapsto> JStr ''max-age=31536000,public''),
                      body = Some (toString_base64 (Body fetched))\<rparr>)\<close>
    using assms(3)
      catchBlock_object_cases [where s3_getObject = s3_getObject and env = env
        and isAlb = "isAlb_of event" and info = info, OF assms(2)]
    by (auto simp add: errorResponse_falsy_status fallbackImageResponse_object)
  show ?thesis
    using h shape catchBlock_falsy [OF assms(3)] by simp
qed

text \<open>An error with the status 0, in the structured error branch and in the fallback branch.\<close>

theorem falsy_status_as_absent_witness:
  \<open>property zero_status_error ''status'' = JNum 0 \<and>
   handler example_env (rejects (JObj zero_status_error)) (rejects (JObj []))
     (getObject_rejects (JObj [])) alb_event =
     Inr \<lparr>statusCode = JNum 500,
          isBase64Encoded = False,
          headers =
            [''Access-Control-Allow-Methods'' \<mapsto> JStr ''GET'',
             ''Access-Control-Allow-Headers'' \<mapsto> JStr ''Content-Type, Authorization'',
             ''Access-Control-Allow-Origin'' \<mapsto> JStr ''*'',
             ''Content-Type'' \<mapsto> JStr ''application/json''],
          body = Some ''{"message":"Internal error. Please contact the system administrator.","code":"InternalError","status":500}''\<rparr> \<and>
   map_sum id statusCode
     (handler fallback_env (resolves big_info) (rejects (JObj zero_status_error))
        (getObject_resolves fallback_object) api_event) = Inr (JNum 500) \<and>
   map_sum id isBase64Encoded
     (handler fallback_env (resolves big_info) (rejects (JObj zero_status_error))
        (getObject_resolves fallback_object) api_event) = Inr True\<close>
proof -
  have structured:
    \<open>handler example_env (rejects (JObj zero_status_error)) (rejects (JObj []))
       (getObject_rejects (JObj [])) alb_event =
     Inr \<lparr>statusCode = JNum 500,
          isBase64Encoded = False,
          headers =
            [''Access-Control-Allow-Methods'' \<mapsto> JStr ''GET'',
             ''Access-Control-Allow-Headers'' \<mapsto> JStr ''Content-Type, Authorization'',
             ''Access-Control-Allow-Origin'' \<mapsto> JStr ''*'',
             ''Content-Type'' \<mapsto> JStr ''application/json''],
          body = Some ''{"message":"Internal error. Please contact the system administrator.","code":"InternalError","status":500}''\<rparr>\<close>
    using falsy_status_as_absent [where imageRequest_setup = "rejects (JObj zero_status_error)"
      and event = alb_event and env = example_env and error = zero_status_error
      and info = None and imageHandler_process = "rejects (JObj [])"
      and ?s3_getObject = "getObject_rejects (JObj [])"]
    by (simp add: tryBlock_def rejects_def getObject_rejects_def example_env_def
      zero_status_error_def property_def alb_event_def isAlb_of_def hasOwnProperty_def
      getResponseHeaders_def string_or_undefined_def)
  have thrown:
    "tryBlock fallback_env (resolves big_info) (rejects (JObj zero_status_error))
       (isAlb_of api_event) api_event = (Some big_info, Inl (JObj zero_status_error))"
    by (simp add: tryBlock_def afterSetup_def Object_keys_def resolves_def rejects_def
      big_info_def)
  have falsy:
    "property zero_status_error ''code'' \<noteq> JStr ''TooLargeImageException'' \<and>
     \<not> truthy (property zero_status_error ''status'')"
    by (simp add: zero_status_error_def property_def)
  have fallback:
    "map_sum id statusCode
       (handler fallback_env (resolves big_info) (rejects (JObj zero_status_error))
          (getObject_resolves fallback_object) api_event) = Inr (JNum 500) \<and>
     map_sum id isBase64Encoded
       (handler fallback_env (resolves big_info) (rejects (JObj zero_status_error))
          (getObject_resolves fallback_object) api_event) = Inr True"
    using falsy_status_as_absent [where imageRequest_setup = "resolves big_info"
      and event = api_event and env = fallback_env and error = zero_status_error
      and info = "Some big_info" and imageHandler_process = "rejects (JObj zero_status_error)"
      and ?s3_getObject = "getObject_resolves fallback_object", OF thrown]
      falsy
    by (simp add: catchBlock_def innerTryBlock_def fallback_env_def isNullOrWhiteSpace_def
        is_white_space_def getObject_resolves_def without_status_def zero_status_error_def
        property_def fallbackImageResponse_def StatusCodes_INTERNAL_SERVER_ERROR_def)
  have "property zero_status_error ''status'' = JNum 0"
    by (simp add: zero_status_error_def property_def)
  with structured fallback show ?thesis
    by simp
qed

end
